theory Spec2Isabelle
  imports Main "HOL-Library.Stream"
begin

section \<open>Errors and driver faults\<close>

text \<open>
  A Go \<^verbatim>\<open>error\<close> is a value of \<open>err option\<close>: \<open>None\<close> is \<^verbatim>\<open>nil\<close>.
  \<open>ErrRecordNotFound\<close> is gorm's sentinel, \<open>Fault\<close> any other error the database driver
  reports, \<open>ErrNew\<close> is \<^verbatim>\<open>errors.New\<close> and \<open>Wrap\<close> is \<^verbatim>\<open>errors.Wrap\<close>.
\<close>

datatype err = ErrRecordNotFound | Fault string | ErrNew string | Wrap err string

text \<open>A Go \<^verbatim>\<open>[]byte\<close>: a \<open>char\<close> of HOL is one byte.\<close>

type_synonym bytes = "char list"

text \<open>
  The database driver may fail at any call. The plan of failures is an input: every gorm
  call takes the next entry of the plan, \<open>Some msg\<close> makes that call fail with
  \<open>Fault msg\<close>; an exhausted plan means no further failure.
\<close>

type_synonym faults = "string option list"

fun next_fault :: "faults \<Rightarrow> string option \<times> faults" where
  "next_fault [] = (None, [])"
| "next_fault (f # fs) = (f, fs)"

section \<open>Entities\<close>

text \<open>
  The package \<^verbatim>\<open>entities\<close> is not among the sources; each record holds the fields that
  the sources read or write. Every entity has the primary key \<^verbatim>\<open>Id\<close> (\<open>Id_pk\<close> here,
  \<open>0\<close> for a struct that was never stored). A field that names an association
  (\<^verbatim>\<open>RedirectURIs\<close>, \<^verbatim>\<open>Permissions\<close>, \<^verbatim>\<open>Resource\<close>, \<^verbatim>\<open>User\<close>, \<^verbatim>\<open>Client\<close>) is part of the
  struct only: stored rows keep it empty, and a \<^verbatim>\<open>Preload\<close> fills it in.
\<close>

record entity =
  Id_pk :: nat

datatype AcrLevel = AcrLevel1 | AcrLevel2 | AcrLevel3

datatype PasswordPolicy = PasswordPolicyLow

datatype KeyState = KeyStatePrevious | KeyStateCurrent | KeyStateNext

text \<open>
  Modelled from the spec: \<^verbatim>\<open>enums.KeyState.String()\<close> is not among the sources; the spec
  names the three states \<^verbatim>\<open>previous\<close>, \<^verbatim>\<open>current\<close> and \<^verbatim>\<open>next\<close>.
\<close>

fun KeyState_String :: "KeyState \<Rightarrow> string" where
  "KeyState_String KeyStatePrevious = ''previous''"
| "KeyState_String KeyStateCurrent = ''current''"
| "KeyState_String KeyStateNext = ''next''"

record Resource = entity +
  ResourceIdentifier :: string
  Resource_Description :: string

record Permission = entity +
  PermissionIdentifier :: string
  Permission_Description :: string
  Permission_ResourceId :: nat
  Permission_Resource :: "Resource option"

record RedirectURI = entity +
  URI :: string
  RedirectURI_ClientId :: nat

record Client = entity +
  ClientIdentifier :: string
  Client_Description :: string
  Client_Enabled :: bool
  ConsentRequired :: bool
  IsPublic :: bool
  AuthorizationCodeEnabled :: bool
  DefaultAcrLevel :: AcrLevel
  ClientCredentialsEnabled :: bool
  ClientSecretEncrypted :: bytes
  RedirectURIs :: "RedirectURI list"
  Client_Permissions :: "Permission list"

record User = entity +
  Subject :: string
  Username :: string
  Email :: string
  EmailVerified :: bool
  PasswordHash :: string
  User_Enabled :: bool
  OTPEnabled :: bool
  OTPSecret :: string
  User_Permissions :: "Permission list"

record UserSession = entity +
  SessionIdentifier :: string
  UserSession_UserId :: nat
  UserSession_User :: "User option"

record UserConsent = entity +
  UserConsent_ClientId :: nat
  UserConsent_UserId :: nat
  UserConsent_Scope :: string
  GrantedAt :: nat
  UserConsent_Client :: "Client option"
  UserConsent_User :: "User option"

text \<open>
  \<open>Code_Code\<close> is the column \<^verbatim>\<open>code\<close> that \<^verbatim>\<open>GetCode\<close> matches: the stored form of the
  authorization code.
\<close>

record Code = entity +
  Code_Code :: string
  Code_ClientId :: nat
  Code_UserId :: nat
  Code_Scope :: string
  Code_RedirectURI :: string
  CodeChallenge :: string
  CodeChallengeMethod :: string
  Code_Nonce :: string
  Code_State :: string
  Code_AcrLevel :: string
  Code_AuthMethods :: string
  IssuedAt :: nat
  ExpiresAt :: nat
  Used :: bool
  Code_Client :: "Client option"
  Code_User :: "User option"

record Role = entity +
  RoleIdentifier :: string

record PreRegistration = entity +
  PreRegistration_Email :: string

record KeyPair = entity +
  KeyPair_State :: string
  KeyIdentifier :: string
  KeyPair_Type :: string
  Algorithm :: string
  PrivateKeyPEM :: bytes
  PublicKeyPEM :: bytes
  PublicKeyASN1_DER :: bytes
  PublicKeyJWK :: bytes

record Settings = entity +
  AppName :: string
  Issuer :: string
  SelfRegistrationEnabled :: bool
  SelfRegistrationRequiresEmailVerification :: bool
  Settings_PasswordPolicy :: PasswordPolicy
  SessionAuthenticationKey :: bytes
  SessionEncryptionKey :: bytes
  AESEncryptionKey :: bytes
  TokenExpirationInSeconds :: nat
  UserSessionIdleTimeoutInSeconds :: nat
  UserSessionMaxLifetimeInSeconds :: nat

section \<open>The database\<close>

text \<open>
  A table is its rows and the last value of its auto-increment counter. The join tables
  of the many-to-many associations hold pairs of primary keys (owner first).
\<close>

record 'r table =
  auto_increment :: nat
  rows :: "'r list"

record database =
  clients :: "Client table"
  redirect_uris :: "RedirectURI table"
  clients_permissions :: "(nat \<times> nat) list"
  permissions :: "Permission table"
  resources :: "Resource table"
  users :: "User table"
  users_permissions :: "(nat \<times> nat) list"
  user_sessions :: "UserSession table"
  user_consents :: "UserConsent table"
  codes :: "Code table"
  key_pairs :: "KeyPair table"
  settings :: "Settings table"
  roles :: "Role table"
  pre_registrations :: "PreRegistration table"

record world =
  db :: database
  faults :: faults

definition empty_table :: "'r table" where
  "empty_table = \<lparr>auto_increment = 0, rows = []\<rparr>"

text \<open>The database after \<^verbatim>\<open>migrate\<close> on a new schema: every table exists and is empty.\<close>

definition empty_database :: database where
  "empty_database =
     \<lparr>clients = empty_table, redirect_uris = empty_table, clients_permissions = [],
      permissions = empty_table, resources = empty_table, users = empty_table,
      users_permissions = [], user_sessions = empty_table, user_consents = empty_table,
      codes = empty_table, key_pairs = empty_table, settings = empty_table,
      roles = empty_table, pre_registrations = empty_table\<rparr>"

section \<open>gorm calls\<close>

text \<open>
  The result of a gorm query: \<^verbatim>\<open>result.Error\<close>, \<^verbatim>\<open>result.RowsAffected\<close>, and the
  destination struct when the query filled it.
\<close>

record 'r gorm_result =
  result_Error :: "err option"
  RowsAffected :: nat
  dest :: "'r option"

text \<open>\<^verbatim>\<open>ORDER BY id LIMIT 1\<close>: the row with the least primary key.\<close>

fun order_id_asc_first :: "('a entity_scheme) list \<Rightarrow> ('a entity_scheme) option" where
  "order_id_asc_first [] = None"
| "order_id_asc_first (r # rs) =
     (case order_id_asc_first rs of
        None \<Rightarrow> Some r
      | Some m \<Rightarrow> if Id_pk m < Id_pk r then Some m else Some r)"

text \<open>\<^verbatim>\<open>ORDER BY Id desc LIMIT 1\<close>: the row with the greatest primary key.\<close>

fun order_id_desc_first :: "('a entity_scheme) list \<Rightarrow> ('a entity_scheme) option" where
  "order_id_desc_first [] = None"
| "order_id_desc_first (r # rs) =
     (case order_id_desc_first rs of
        None \<Rightarrow> Some r
      | Some m \<Rightarrow> if Id_pk r < Id_pk m then Some m else Some r)"

text \<open>
  The result of \<^verbatim>\<open>First\<close> from what the driver reports and the row the query selects:
  a failure of the driver is \<^verbatim>\<open>result.Error\<close>; no row is \<^verbatim>\<open>ErrRecordNotFound\<close> with
  \<^verbatim>\<open>RowsAffected = 0\<close>; a row is stored in the destination.
\<close>

definition first_result :: "string option \<Rightarrow> 'r option \<Rightarrow> 'r gorm_result" where
  "first_result f sel =
     (case f of
        Some msg \<Rightarrow> \<lparr>result_Error = Some (Fault msg), RowsAffected = 0, dest = None\<rparr>
      | None \<Rightarrow>
          (case sel of
             None \<Rightarrow> \<lparr>result_Error = Some ErrRecordNotFound, RowsAffected = 0, dest = None\<rparr>
           | Some r \<Rightarrow> \<lparr>result_Error = None, RowsAffected = 1, dest = Some r\<rparr>))"

text \<open>
  \<^verbatim>\<open>Where(cond).First(&x)\<close> with its preloads \<open>pre\<close>, on the table \<open>tbl\<close> of the database.
  A condition \<^verbatim>\<open>column = ?\<close> is the equality of the column and the argument; the collation
  of the database is not modelled.
\<close>

definition gorm_First ::
  "(database \<Rightarrow> ('a entity_scheme) table) \<Rightarrow> (database \<Rightarrow> 'a entity_scheme \<Rightarrow> 'a entity_scheme) \<Rightarrow>
   ('a entity_scheme \<Rightarrow> bool) \<Rightarrow> world \<Rightarrow> ('a entity_scheme) gorm_result \<times> world" where
  "gorm_First tbl pre cond w =
     (case next_fault (faults w) of
        (f, fs) \<Rightarrow>
          (first_result f (map_option (pre (db w)) (order_id_asc_first (filter cond (rows (tbl (db w)))))),
           w\<lparr>faults := fs\<rparr>))"

text \<open>\<^verbatim>\<open>Order("Id desc").First(&x)\<close>.\<close>

definition gorm_Order_Id_desc_First ::
  "(database \<Rightarrow> ('a entity_scheme) table) \<Rightarrow> world \<Rightarrow> ('a entity_scheme) gorm_result \<times> world" where
  "gorm_Order_Id_desc_First tbl w =
     (case next_fault (faults w) of
        (f, fs) \<Rightarrow> (first_result f (order_id_desc_first (rows (tbl (db w)))), w\<lparr>faults := fs\<rparr>))"

text \<open>
  The three branches every lookup of the repository ends with:
  \<^verbatim>\<open>if result.Error != nil && result.Error != gorm.ErrRecordNotFound { return nil, errors.Wrap(result.Error, msg) }\<close>,
  \<^verbatim>\<open>if result.RowsAffected == 0 { return nil, nil }\<close>, \<^verbatim>\<open>return &x, nil\<close>.
\<close>

definition lookup_return :: "string \<Rightarrow> 'r gorm_result \<Rightarrow> 'r option \<times> err option" where
  "lookup_return msg result =
     (if result_Error result \<noteq> None \<and> result_Error result \<noteq> Some ErrRecordNotFound
      then (None, Some (Wrap (the (result_Error result)) msg))
      else if RowsAffected result = 0 then (None, None)
      else (dest result, None))"

text \<open>
  \<^verbatim>\<open>INSERT\<close> of one row. A primary key of \<open>0\<close> takes the next auto-increment value, any
  other key is kept; a key that is already in the table is refused (duplicate entry).
\<close>

definition insert_row ::
  "'a entity_scheme \<Rightarrow> ('a entity_scheme) table \<Rightarrow> ('a entity_scheme \<times> ('a entity_scheme) table) option" where
  "insert_row r t =
     (let i = (if Id_pk r = 0 then Suc (auto_increment t) else Id_pk r);
          r' = r\<lparr>Id_pk := i\<rparr>
      in if i \<in> set (map Id_pk (rows t)) then None
         else Some (r', \<lparr>auto_increment = max (auto_increment t) i, rows = rows t @ [r']\<rparr>))"

text \<open>
  gorm writes the associations of a struct with \<^verbatim>\<open>ON DUPLICATE KEY\<close> doing nothing: a row
  that is already stored stays as it is, any other is inserted.
\<close>

definition save_association ::
  "'a entity_scheme \<Rightarrow> ('a entity_scheme) table \<Rightarrow> 'a entity_scheme \<times> ('a entity_scheme) table" where
  "save_association r t = (case insert_row r t of None \<Rightarrow> (r, t) | Some (r', t') \<Rightarrow> (r', t'))"

definition add_join_row :: "nat \<times> nat \<Rightarrow> (nat \<times> nat) list \<Rightarrow> (nat \<times> nat) list" where
  "add_join_row j js = (if j \<in> set js then js else js @ [j])"

text \<open>
  \<^verbatim>\<open>Create(&x)\<close>: the struct after the call and \<^verbatim>\<open>result.Error\<close>. The insert \<open>ins\<close> writes
  the row and the associations of the struct in one transaction; a refused insert leaves the
  database as it was.
\<close>

definition gorm_Create ::
  "('r \<Rightarrow> database \<Rightarrow> ('r \<times> database) option) \<Rightarrow> 'r \<Rightarrow> world \<Rightarrow> ('r \<times> err option) \<times> world" where
  "gorm_Create ins r w =
     (case next_fault (faults w) of
        (Some msg, fs) \<Rightarrow> ((r, Some (Fault msg)), w\<lparr>faults := fs\<rparr>)
      | (None, fs) \<Rightarrow>
          (case ins r (db w) of
             None \<Rightarrow> ((r, Some (Fault ''Error 1062: Duplicate entry'')), w\<lparr>faults := fs\<rparr>)
           | Some (r', d') \<Rightarrow> ((r', None), \<lparr>db = d', faults = fs\<rparr>)))"

text \<open>The insert of a struct without associations into its table.\<close>

definition insert_into ::
  "(database \<Rightarrow> ('a entity_scheme) table) \<Rightarrow>
   ((('a entity_scheme) table \<Rightarrow> ('a entity_scheme) table) \<Rightarrow> database \<Rightarrow> database) \<Rightarrow>
   'a entity_scheme \<Rightarrow> database \<Rightarrow> ('a entity_scheme \<times> database) option" where
  "insert_into tbl upd r d =
     (case insert_row r (tbl d) of
        None \<Rightarrow> None
      | Some (r', t') \<Rightarrow> Some (r', upd (\<lambda>_. t') d))"

text \<open>
  A permission written as an association: its resource first (belongs-to, which sets
  \<^verbatim>\<open>resource_id\<close>), then the permission itself.
\<close>

definition save_Resource_of :: "Permission \<Rightarrow> database \<Rightarrow> Permission \<times> database" where
  "save_Resource_of p d =
     (case Permission_Resource p of
        None \<Rightarrow> (p, d)
      | Some r \<Rightarrow>
          (case save_association r (resources d) of
             (r', t) \<Rightarrow> (p\<lparr>Permission_ResourceId := Id_pk r', Permission_Resource := Some r'\<rparr>,
                         d\<lparr>resources := t\<rparr>)))"

definition save_Permission :: "Permission \<Rightarrow> database \<Rightarrow> Permission \<times> database" where
  "save_Permission p d =
     (case save_Resource_of p d of
        (p1, d1) \<Rightarrow>
          (case save_association (p1\<lparr>Permission_Resource := None\<rparr>) (permissions d1) of
             (p', t) \<Rightarrow> (p1\<lparr>Id_pk := Id_pk p'\<rparr>, d1\<lparr>permissions := t\<rparr>)))"

definition insert_Permission :: "Permission \<Rightarrow> database \<Rightarrow> (Permission \<times> database) option" where
  "insert_Permission p d =
     (case save_Resource_of p d of
        (p1, d1) \<Rightarrow>
          (case insert_row (p1\<lparr>Permission_Resource := None\<rparr>) (permissions d1) of
             None \<Rightarrow> None
           | Some (p', t) \<Rightarrow> Some (p1\<lparr>Id_pk := Id_pk p'\<rparr>, d1\<lparr>permissions := t\<rparr>)))"

text \<open>
  The many-to-many permissions of an owner \<open>i\<close>: each permission, then its join row, which
  \<open>upd\<close> adds to the join table of the owner. The permissions come back as they were written,
  with their primary keys.
\<close>

fun save_joined_permissions ::
  "(((nat \<times> nat) list \<Rightarrow> (nat \<times> nat) list) \<Rightarrow> database \<Rightarrow> database) \<Rightarrow>
   nat \<Rightarrow> Permission list \<Rightarrow> database \<Rightarrow> Permission list \<times> database" where
  "save_joined_permissions upd i [] d = ([], d)"
| "save_joined_permissions upd i (p # ps) d =
     (case save_Permission p d of
        (p', d') \<Rightarrow>
          (case save_joined_permissions upd i ps (upd (add_join_row (i, Id_pk p')) d') of
             (ps', d'') \<Rightarrow> (p' # ps', d'')))"

text \<open>
  The redirect URIs of a client \<open>i\<close> (has-many): each takes \<^verbatim>\<open>client_id\<close> from the client and
  is written; they come back with their primary keys.
\<close>

fun save_RedirectURIs :: "nat \<Rightarrow> RedirectURI list \<Rightarrow> database \<Rightarrow> RedirectURI list \<times> database" where
  "save_RedirectURIs i [] d = ([], d)"
| "save_RedirectURIs i (u # us) d =
     (case save_association (u\<lparr>RedirectURI_ClientId := i\<rparr>) (redirect_uris d) of
        (u', t) \<Rightarrow>
          (case save_RedirectURIs i us (d\<lparr>redirect_uris := t\<rparr>) of
             (us', d') \<Rightarrow> (u' # us', d')))"

text \<open>
  The insert of a client: its row, then its redirect URIs and its permissions. The struct
  comes back with its primary key and with the associations as they were written.
\<close>

definition insert_Client :: "Client \<Rightarrow> database \<Rightarrow> (Client \<times> database) option" where
  "insert_Client c d =
     (case insert_row (c\<lparr>RedirectURIs := [], Client_Permissions := []\<rparr>) (clients d) of
        None \<Rightarrow> None
      | Some (c', t) \<Rightarrow>
          (case save_RedirectURIs (Id_pk c') (RedirectURIs c) (d\<lparr>clients := t\<rparr>) of
             (uris, d1) \<Rightarrow>
               (case save_joined_permissions clients_permissions_update (Id_pk c')
                       (Client_Permissions c) d1 of
                  (perms, d2) \<Rightarrow>
                    Some (c\<lparr>Id_pk := Id_pk c', RedirectURIs := uris, Client_Permissions := perms\<rparr>, d2))))"

definition insert_User :: "User \<Rightarrow> database \<Rightarrow> (User \<times> database) option" where
  "insert_User u d =
     (case insert_row (u\<lparr>User_Permissions := []\<rparr>) (users d) of
        None \<Rightarrow> None
      | Some (u', t) \<Rightarrow>
          (case save_joined_permissions users_permissions_update (Id_pk u')
                  (User_Permissions u) (d\<lparr>users := t\<rparr>) of
             (perms, d1) \<Rightarrow> Some (u\<lparr>Id_pk := Id_pk u', User_Permissions := perms\<rparr>, d1)))"

text \<open>
  A code belongs to a client and to a user: a struct that carries them writes them as
  associations and takes its foreign keys from them.
\<close>

definition insert_Code :: "Code \<Rightarrow> database \<Rightarrow> (Code \<times> database) option" where
  "insert_Code c d =
     (case (case Code_Client c of
              None \<Rightarrow> (c, d)
            | Some cl \<Rightarrow>
                (case save_association (cl\<lparr>RedirectURIs := [], Client_Permissions := []\<rparr>) (clients d) of
                   (cl', t) \<Rightarrow> (c\<lparr>Code_ClientId := Id_pk cl'\<rparr>, d\<lparr>clients := t\<rparr>))) of
        (c1, d1) \<Rightarrow>
          (case (case Code_User c1 of
                   None \<Rightarrow> (c1, d1)
                 | Some u \<Rightarrow>
                     (case save_association (u\<lparr>User_Permissions := []\<rparr>) (users d1) of
                        (u', t) \<Rightarrow> (c1\<lparr>Code_UserId := Id_pk u'\<rparr>, d1\<lparr>users := t\<rparr>))) of
             (c2, d2) \<Rightarrow>
               (case insert_row (c2\<lparr>Code_Client := None, Code_User := None\<rparr>) (codes d2) of
                  None \<Rightarrow> None
                | Some (c', t) \<Rightarrow> Some (c2\<lparr>Id_pk := Id_pk c'\<rparr>, d2\<lparr>codes := t\<rparr>))))"

text \<open>\<^verbatim>\<open>Unscoped().Where(cond).Delete(&T{})\<close>: \<^verbatim>\<open>result.Error\<close>; the rows that match are gone.\<close>

definition gorm_Delete ::
  "((('a entity_scheme) table \<Rightarrow> ('a entity_scheme) table) \<Rightarrow> database \<Rightarrow> database) \<Rightarrow>
   ('a entity_scheme \<Rightarrow> bool) \<Rightarrow> world \<Rightarrow> err option \<times> world" where
  "gorm_Delete upd cond w =
     (case next_fault (faults w) of
        (Some msg, fs) \<Rightarrow> (Some (Fault msg), w\<lparr>faults := fs\<rparr>)
      | (None, fs) \<Rightarrow>
          (None, \<lparr>db = upd (rows_update (filter (\<lambda>r. \<not> cond r))) (db w), faults = fs\<rparr>))"

subsection \<open>Preloads\<close>

definition find_by_id :: "nat \<Rightarrow> ('a entity_scheme) table \<Rightarrow> ('a entity_scheme) option" where
  "find_by_id i t = find (\<lambda>r. Id_pk r = i) (rows t)"

text \<open>\<^verbatim>\<open>Preload("Resource")\<close> of a permission (\<^verbatim>\<open>clause.Associations\<close> in \<^verbatim>\<open>GetPermissionById\<close>).\<close>

definition preload_Permission :: "database \<Rightarrow> Permission \<Rightarrow> Permission" where
  "preload_Permission d p = p\<lparr>Permission_Resource := find_by_id (Permission_ResourceId p) (resources d)\<rparr>"

text \<open>The permissions joined to the owner \<open>i\<close> by the join table \<open>js\<close>.\<close>

definition joined_permissions :: "database \<Rightarrow> (nat \<times> nat) list \<Rightarrow> nat \<Rightarrow> Permission list" where
  "joined_permissions d js i = filter (\<lambda>p. (i, Id_pk p) \<in> set js) (rows (permissions d))"

text \<open>
  \<^verbatim>\<open>Preload("RedirectURIs").Preload("Permissions").Preload("Permissions.Resource")\<close>, which is
  also what \<^verbatim>\<open>Preload(clause.Associations).Preload("Permissions.Resource")\<close> loads of a client.
\<close>

definition preload_Client :: "database \<Rightarrow> Client \<Rightarrow> Client" where
  "preload_Client d c =
     c\<lparr>RedirectURIs := filter (\<lambda>u. RedirectURI_ClientId u = Id_pk c) (rows (redirect_uris d)),
       Client_Permissions := map (preload_Permission d) (joined_permissions d (clients_permissions d) (Id_pk c))\<rparr>"

text \<open>\<^verbatim>\<open>Preload(clause.Associations)\<close> of a user: of its associations, the permissions are modelled.\<close>

definition preload_User :: "database \<Rightarrow> User \<Rightarrow> User" where
  "preload_User d u = u\<lparr>User_Permissions := joined_permissions d (users_permissions d) (Id_pk u)\<rparr>"

text \<open>\<^verbatim>\<open>Preload("User")\<close> of a session.\<close>

definition preload_UserSession :: "database \<Rightarrow> UserSession \<Rightarrow> UserSession" where
  "preload_UserSession d s = s\<lparr>UserSession_User := find_by_id (UserSession_UserId s) (users d)\<rparr>"

text \<open>\<^verbatim>\<open>Preload("Client").Preload("User")\<close> of a consent.\<close>

definition preload_UserConsent :: "database \<Rightarrow> UserConsent \<Rightarrow> UserConsent" where
  "preload_UserConsent d c =
     c\<lparr>UserConsent_Client := find_by_id (UserConsent_ClientId c) (clients d),
       UserConsent_User := find_by_id (UserConsent_UserId c) (users d)\<rparr>"

text \<open>\<^verbatim>\<open>Preload("Client").Preload("User").Preload("User.Permissions").Preload("User.Roles")\<close> of a code.\<close>

definition preload_Code :: "database \<Rightarrow> Code \<Rightarrow> Code" where
  "preload_Code d c =
     c\<lparr>Code_Client := find_by_id (Code_ClientId c) (clients d),
       Code_User := map_option (preload_User d) (find_by_id (Code_UserId c) (users d))\<rparr>"

definition no_preload :: "database \<Rightarrow> 'r \<Rightarrow> 'r" where
  "no_preload d r = r"

section \<open>The repository\<close>

definition isDbEmpty :: "world \<Rightarrow> bool \<times> world" where
  "isDbEmpty w =
     (case gorm_First settings no_preload (\<lambda>_. True) w of
        (result, w') \<Rightarrow> (result_Error result = Some ErrRecordNotFound, w'))"

definition GetClientByClientIdentifier :: "string \<Rightarrow> world \<Rightarrow> (Client option \<times> err option) \<times> world" where
  "GetClientByClientIdentifier clientIdentifier w =
     (case gorm_First clients preload_Client (\<lambda>c. ClientIdentifier c = clientIdentifier) w of
        (result, w') \<Rightarrow> (lookup_return ''unable to fetch client from database'' result, w'))"

definition GetUserByUsername :: "string \<Rightarrow> world \<Rightarrow> (User option \<times> err option) \<times> world" where
  "GetUserByUsername username w =
     (case gorm_First users preload_User (\<lambda>u. Username u = username) w of
        (result, w') \<Rightarrow> (lookup_return ''unable to fetch user from database'' result, w'))"

definition GetUserById :: "nat \<Rightarrow> world \<Rightarrow> (User option \<times> err option) \<times> world" where
  "GetUserById i w =
     (case gorm_First users preload_User (\<lambda>u. Id_pk u = i) w of
        (result, w') \<Rightarrow> (lookup_return ''unable to fetch user from database'' result, w'))"

definition GetUserBySubject :: "string \<Rightarrow> world \<Rightarrow> (User option \<times> err option) \<times> world" where
  "GetUserBySubject subject w =
     (case gorm_First users preload_User (\<lambda>u. Subject u = subject) w of
        (result, w') \<Rightarrow> (lookup_return ''unable to fetch user from database'' result, w'))"

definition GetUserByEmail :: "string \<Rightarrow> world \<Rightarrow> (User option \<times> err option) \<times> world" where
  "GetUserByEmail email w =
     (case gorm_First users preload_User (\<lambda>u. Email u = email) w of
        (result, w') \<Rightarrow> (lookup_return ''unable to fetch user from database'' result, w'))"

definition CreateCode :: "Code \<Rightarrow> world \<Rightarrow> (Code option \<times> err option) \<times> world" where
  "CreateCode code w =
     (case gorm_Create insert_Code code w of
        ((code', e), w') \<Rightarrow>
          (if e \<noteq> None
           then ((None, Some (Wrap (the e) ''unable to create code in database'')), w')
           else ((Some code', None), w')))"

definition GetCode :: "string \<Rightarrow> bool \<Rightarrow> world \<Rightarrow> (Code option \<times> err option) \<times> world" where
  "GetCode code used w =
     (case gorm_First codes preload_Code (\<lambda>c. Code_Code c = code \<and> Used c = used) w of
        (result, w') \<Rightarrow> (lookup_return ''unable to fetch code from database'' result, w'))"

definition GetSigningKey :: "world \<Rightarrow> (KeyPair option \<times> err option) \<times> world" where
  "GetSigningKey w =
     (case gorm_Order_Id_desc_First key_pairs w of
        (result, w') \<Rightarrow> (lookup_return ''unable to fetch keypair from database'' result, w'))"


definition GetSettings :: "world \<Rightarrow> (Settings option \<times> err option) \<times> world" where
  "GetSettings w =
     (case gorm_First settings no_preload (\<lambda>_. True) w of
        (result, w') \<Rightarrow> (lookup_return ''unable to fetch settings from database'' result, w'))"

definition GetUserSessionBySessionIdentifier ::
  "string \<Rightarrow> world \<Rightarrow> (UserSession option \<times> err option) \<times> world" where
  "GetUserSessionBySessionIdentifier sessionIdentifier w =
     (case gorm_First user_sessions preload_UserSession (\<lambda>s. SessionIdentifier s = sessionIdentifier) w of
        (result, w') \<Rightarrow> (lookup_return ''unable to fetch user session from database'' result, w'))"

definition GetUserConsent :: "nat \<Rightarrow> nat \<Rightarrow> world \<Rightarrow> (UserConsent option \<times> err option) \<times> world" where
  "GetUserConsent userId clientId w =
     (case gorm_First user_consents preload_UserConsent
             (\<lambda>c. UserConsent_UserId c = userId \<and> UserConsent_ClientId c = clientId) w of
        (result, w') \<Rightarrow> (lookup_return ''unable to fetch user consent from database'' result, w'))"

definition DeleteUserSession :: "nat \<Rightarrow> world \<Rightarrow> err option \<times> world" where
  "DeleteUserSession userSessionId w =
     (case gorm_Delete user_sessions_update (\<lambda>s. Id_pk s = userSessionId) w of
        (e, w') \<Rightarrow>
          (if e \<noteq> None
           then (Some (Wrap (the e) ''unable to delete user session from database''), w')
           else (None, w')))"

definition GetClientById :: "nat \<Rightarrow> world \<Rightarrow> (Client option \<times> err option) \<times> world" where
  "GetClientById i w =
     (case gorm_First clients preload_Client (\<lambda>c. Id_pk c = i) w of
        (result, w') \<Rightarrow> (lookup_return ''unable to fetch client from database'' result, w'))"

definition GetPermissionById :: "nat \<Rightarrow> world \<Rightarrow> (Permission option \<times> err option) \<times> world" where
  "GetPermissionById i w =
     (case gorm_First permissions preload_Permission (\<lambda>p. Id_pk p = i) w of
        (result, w') \<Rightarrow> (lookup_return ''unable to fetch permission from database'' result, w'))"

definition GetResourceById :: "nat \<Rightarrow> world \<Rightarrow> (Resource option \<times> err option) \<times> world" where
  "GetResourceById i w =
     (case gorm_First resources no_preload (\<lambda>r. Id_pk r = i) w of
        (result, w') \<Rightarrow> (lookup_return ''unable to fetch resource from database'' result, w'))"

definition GetResourceByResourceIdentifier ::
  "string \<Rightarrow> world \<Rightarrow> (Resource option \<times> err option) \<times> world" where
  "GetResourceByResourceIdentifier resourceIdentifier w =
     (case gorm_First resources no_preload (\<lambda>r. ResourceIdentifier r = resourceIdentifier) w of
        (result, w') \<Rightarrow> (lookup_return ''unable to fetch resource from database'' result, w'))"

definition GetPreRegistrationByEmail ::
  "string \<Rightarrow> world \<Rightarrow> (PreRegistration option \<times> err option) \<times> world" where
  "GetPreRegistrationByEmail email w =
     (case gorm_First pre_registrations no_preload (\<lambda>p. PreRegistration_Email p = email) w of
        (result, w') \<Rightarrow> (lookup_return ''unable to fetch pre registration from database'' result, w'))"

definition GetPermissionByPermissionIdentifier ::
  "string \<Rightarrow> world \<Rightarrow> (Permission option \<times> err option) \<times> world" where
  "GetPermissionByPermissionIdentifier permissionIdentifier w =
     (case gorm_First permissions preload_Permission
             (\<lambda>p. PermissionIdentifier p = permissionIdentifier) w of
        (result, w') \<Rightarrow> (lookup_return ''unable to fetch permission from database'' result, w'))"

definition GetRoleById :: "nat \<Rightarrow> world \<Rightarrow> (Role option \<times> err option) \<times> world" where
  "GetRoleById i w =
     (case gorm_First roles no_preload (\<lambda>r. Id_pk r = i) w of
        (result, w') \<Rightarrow> (lookup_return ''unable to fetch role from database'' result, w'))"

definition GetRoleByRoleIdentifier :: "string \<Rightarrow> world \<Rightarrow> (Role option \<times> err option) \<times> world" where
  "GetRoleByRoleIdentifier roleIdentifier w =
     (case gorm_First roles no_preload (\<lambda>r. RoleIdentifier r = roleIdentifier) w of
        (result, w') \<Rightarrow> (lookup_return ''unable to fetch role from database'' result, w'))"

text \<open>
  A call either returns, or it does not return normally: \<open>Aborts\<close> stands for a Go panic
  (a nil pointer dereference) and for \<^verbatim>\<open>t.Fatal\<close> in a test helper.
\<close>

datatype 'a outcome = Returns 'a | Aborts string

text \<open>
  \<^verbatim>\<open>d.DB.Model(&client).Association("Permissions").Delete(permission)\<close>, a call into gorm.
  With a nil client gorm finds no primary key of the owner and returns
  \<^verbatim>\<open>ErrPrimaryKeyRequired\<close> before any query. Otherwise it deletes from the join table the
  rows of the client and the given permission; with a nil permission these are none.
\<close>

definition Association_Permissions_Delete ::
  "Client option \<Rightarrow> Permission option \<Rightarrow> world \<Rightarrow> err option \<times> world" where
  "Association_Permissions_Delete client permission w =
     (case client of
        None \<Rightarrow> (Some (ErrNew ''primary key required''), w)
      | Some c \<Rightarrow>
          (case next_fault (faults w) of
             (Some msg, fs) \<Rightarrow> (Some (Fault msg), w\<lparr>faults := fs\<rparr>)
           | (None, fs) \<Rightarrow>
               (None,
                \<lparr>db = (db w)\<lparr>clients_permissions :=
                         (case permission of
                            None \<Rightarrow> clients_permissions (db w)
                          | Some p \<Rightarrow>
                              filter (\<lambda>j. j \<noteq> (Id_pk c, Id_pk p)) (clients_permissions (db w)))\<rparr>,
                 faults = fs\<rparr>)))"

definition DeleteClientPermission :: "nat \<Rightarrow> nat \<Rightarrow> world \<Rightarrow> err option \<times> world" where
  "DeleteClientPermission clientId permissionId w =
     (case GetClientById clientId w of
        ((client, err), w1) \<Rightarrow>
          if err \<noteq> None then (err, w1)
          else
            (case GetPermissionById permissionId w1 of
               ((permission, err), w2) \<Rightarrow>
                 if err \<noteq> None then (err, w2)
                 else
                   (case Association_Permissions_Delete client permission w2 of
                      (err, w3) \<Rightarrow>
                        if err \<noteq> None
                        then (Some (Wrap (the err) ''unable to delete client permission from database''), w3)
                        else (None, w3))))"

text \<open>
  The loop of \<^verbatim>\<open>DeleteClient\<close> over \<^verbatim>\<open>client.Permissions\<close>: it stops at the first call that
  does not return \<^verbatim>\<open>nil\<close>.
\<close>

fun DeleteClient_permissions :: "nat \<Rightarrow> Permission list \<Rightarrow> world \<Rightarrow> err option \<times> world" where
  "DeleteClient_permissions clientId [] w = (None, w)"
| "DeleteClient_permissions clientId (permission # ps) w =
     (case DeleteClientPermission clientId (Id_pk permission) w of
        (err, w') \<Rightarrow>
          if err \<noteq> None then (err, w') else DeleteClient_permissions clientId ps w')"

definition DeleteClient :: "nat \<Rightarrow> world \<Rightarrow> err option outcome \<times> world" where
  "DeleteClient clientId w =
     (case gorm_Delete user_consents_update (\<lambda>c. UserConsent_ClientId c = clientId) w of
        (e1, w1) \<Rightarrow>
          if e1 \<noteq> None
          then (Returns (Some (Wrap (the e1) ''unable to delete user consents from database (to delete a client)'')), w1)
          else
     (case gorm_Delete redirect_uris_update (\<lambda>u. RedirectURI_ClientId u = clientId) w1 of
        (e2, w2) \<Rightarrow>
          if e2 \<noteq> None
          then (Returns (Some (Wrap (the e2) ''unable to delete redirect uris from database (to delete a client)'')), w2)
          else
     (case gorm_Delete codes_update (\<lambda>c. Code_ClientId c = clientId) w2 of
        (e3, w3) \<Rightarrow>
          if e3 \<noteq> None
          then (Returns (Some (Wrap (the e3) ''unable to delete codes from database (to delete a client)'')), w3)
          else
     (case GetClientById clientId w3 of
        ((client, err), w4) \<Rightarrow>
          if err \<noteq> None then (Returns err, w4)
          else
            (case client of
               None \<Rightarrow> (Aborts ''nil pointer dereference'', w4)
             | Some c \<Rightarrow>
                 (case DeleteClient_permissions clientId (Client_Permissions c) w4 of
                    (err, w5) \<Rightarrow>
                      if err \<noteq> None then (Returns err, w5)
                      else
                        (case gorm_Delete clients_update (\<lambda>c. Id_pk c = clientId) w5 of
                           (e6, w6) \<Rightarrow>
                             if e6 \<noteq> None
                             then (Returns (Some (Wrap (the e6) ''unable to delete client from database'')), w6)
                             else (Returns None, w6))))))))"

section \<open>Seeding\<close>

text \<open>
  The packages \<^verbatim>\<open>lib\<close>, \<^verbatim>\<open>x509\<close> and \<^verbatim>\<open>pem\<close> are not among the sources: their functions are
  parameters. A function whose error the caller drops returns a pair; key generation
  returns the key or the error.
\<close>

datatype rsa_PublicKey = rsa_PublicKey nat nat

datatype rsa_PrivateKey = rsa_PrivateKey (PublicKey: rsa_PublicKey) nat

record lib =
  EncryptText :: "string \<Rightarrow> bytes \<Rightarrow> bytes \<times> err option"
  DecryptText :: "bytes \<Rightarrow> bytes \<Rightarrow> string \<times> err option"
  HashPassword :: "string \<Rightarrow> string \<times> err option"
  HashString :: "string \<Rightarrow> string \<times> err option"
  GeneratePrivateKey :: "nat \<Rightarrow> nat \<Rightarrow> err + rsa_PrivateKey"
  EncodePrivateKeyToPEM :: "rsa_PrivateKey \<Rightarrow> bytes"
  MarshalPKIXPublicKey :: "rsa_PublicKey \<Rightarrow> bytes \<times> err option"
  pem_EncodeToMemory :: "string \<Rightarrow> bytes \<Rightarrow> bytes"
  MarshalRSAPublicKeyToJWK :: "rsa_PublicKey \<Rightarrow> string \<Rightarrow> bytes \<times> err option"

text \<open>The configuration that \<^verbatim>\<open>viper\<close> and \<^verbatim>\<open>lib.GetBaseUrl\<close> read.\<close>

record config =
  AdminEmail :: string
  AdminPassword :: string
  BaseUrl :: string

text \<open>
  What the random sources deliver to one run of \<^verbatim>\<open>seed\<close>, in the order of the calls:
  \<^verbatim>\<open>securecookie.GenerateRandomKey(32)\<close>, \<^verbatim>\<open>lib.GenerateSecureRandomString(60)\<close>, \<^verbatim>\<open>uuid.New()\<close>
  for the subject, the entropy of the two \<^verbatim>\<open>lib.GeneratePrivateKey(4096)\<close> and the
  \<^verbatim>\<open>uuid.New().String()\<close> after each, and the two session keys.
\<close>

record seed_rand =
  rnd_encryptionKey :: bytes
  rnd_clientSecret :: string
  rnd_Subject :: string
  rnd_privateKey_current :: nat
  rnd_kid_current :: string
  rnd_privateKey_next :: nat
  rnd_kid_next :: string
  rnd_SessionAuthenticationKey :: bytes
  rnd_SessionEncryptionKey :: bytes

text \<open>
  The block that \<^verbatim>\<open>seed\<close> runs twice (\<^verbatim>\<open>// key pair (current)\<close>, \<^verbatim>\<open>// key pair (next)\<close>),
  up to the struct it hands to \<^verbatim>\<open>Create\<close>; \<open>Inl\<close> is the error that \<^verbatim>\<open>seed\<close> returns.
\<close>

definition seed_KeyPair :: "lib \<Rightarrow> KeyState \<Rightarrow> nat \<Rightarrow> string \<Rightarrow> err + KeyPair" where
  "seed_KeyPair L st entropy kid =
     (case GeneratePrivateKey L 4096 entropy of
        Inl err \<Rightarrow> Inl (Wrap err ''unable to generate a private key'')
      | Inr privateKey \<Rightarrow>
          (let privateKeyPEM = EncodePrivateKeyToPEM L privateKey in
           case MarshalPKIXPublicKey L (PublicKey privateKey) of
             (publicKeyASN1_DER, err) \<Rightarrow>
               if err \<noteq> None then Inl (Wrap (the err) ''unable to marshal public key to PKIX'')
               else
                 (let publicKeyPEM = pem_EncodeToMemory L ''RSA PUBLIC KEY'' publicKeyASN1_DER in
                  case MarshalRSAPublicKeyToJWK L (PublicKey privateKey) kid of
                    (publicKeyJWK, err) \<Rightarrow>
                      if err \<noteq> None then Inl (the err)
                      else
                        Inr \<lparr>Id_pk = 0,
                             KeyPair_State = KeyState_String st,
                             KeyIdentifier = kid,
                             KeyPair_Type = ''RSA'',
                             Algorithm = ''RS256'',
                             PrivateKeyPEM = privateKeyPEM,
                             PublicKeyPEM = publicKeyPEM,
                             PublicKeyASN1_DER = publicKeyASN1_DER,
                             PublicKeyJWK = publicKeyJWK\<rparr>)))"

text \<open>The first part of \<^verbatim>\<open>seed\<close>: client, admin user, resource and permissions.\<close>

definition seed_client1 :: "lib \<Rightarrow> config \<Rightarrow> seed_rand \<Rightarrow> Client" where
  "seed_client1 L cfg R =
     (let encryptionKey = rnd_encryptionKey R;
          clientSecret = rnd_clientSecret R;
          clientSecretEncrypted = fst (EncryptText L clientSecret encryptionKey)
      in \<lparr>Id_pk = 0,
          ClientIdentifier = ''system-website'',
          Client_Description = ''Website client (system-level)'',
          Client_Enabled = True,
          ConsentRequired = False,
          IsPublic = False,
          AuthorizationCodeEnabled = True,
          DefaultAcrLevel = AcrLevel2,
          ClientCredentialsEnabled = False,
          ClientSecretEncrypted = clientSecretEncrypted,
          RedirectURIs = [\<lparr>Id_pk = 0, URI = BaseUrl cfg @ ''/auth/callback'', RedirectURI_ClientId = 0\<rparr>],
          Client_Permissions = []\<rparr>)"

definition seed_user :: "lib \<Rightarrow> config \<Rightarrow> seed_rand \<Rightarrow> User" where
  "seed_user L cfg R =
     (let adminEmail = (if length (AdminEmail cfg) = 0 then ''admin@example.com'' else AdminEmail cfg);
          adminPassword = (if length (AdminPassword cfg) = 0 then ''admin123'' else AdminPassword cfg);
          passwordHash = fst (HashPassword L adminPassword)
      in \<lparr>Id_pk = 0,
          Subject = rnd_Subject R,
          Username = [],
          Email = adminEmail,
          EmailVerified = True,
          PasswordHash = passwordHash,
          User_Enabled = True,
          OTPEnabled = False,
          OTPSecret = [],
          User_Permissions = []\<rparr>)"

definition seed_permission :: "string \<Rightarrow> string \<Rightarrow> Resource \<Rightarrow> Permission" where
  "seed_permission ident descr resource =
     \<lparr>Id_pk = 0, PermissionIdentifier = ident, Permission_Description = descr,
      Permission_ResourceId = 0, Permission_Resource = Some resource\<rparr>"

definition seed_settings :: "seed_rand \<Rightarrow> Settings" where
  "seed_settings R =
     \<lparr>Id_pk = 0,
      AppName = ''Goiabada'',
      Issuer = ''https://goiabada.dev'',
      SelfRegistrationEnabled = True,
      SelfRegistrationRequiresEmailVerification = True,
      Settings_PasswordPolicy = PasswordPolicyLow,
      SessionAuthenticationKey = rnd_SessionAuthenticationKey R,
      SessionEncryptionKey = rnd_SessionEncryptionKey R,
      AESEncryptionKey = rnd_encryptionKey R,
      TokenExpirationInSeconds = 300,
      UserSessionIdleTimeoutInSeconds = 1800,
      UserSessionMaxLifetimeInSeconds = 86400\<rparr>"

text \<open>
  \<^verbatim>\<open>seed\<close> up to the comment \<^verbatim>\<open>// key pair (current)\<close>. The result of every \<^verbatim>\<open>Create\<close>
  is dropped, as in the source; the struct keeps the primary key that \<^verbatim>\<open>Create\<close> gave it.
\<close>

definition seed_accounts :: "lib \<Rightarrow> config \<Rightarrow> seed_rand \<Rightarrow> world \<Rightarrow> world" where
  "seed_accounts L cfg R w1 =
     (case gorm_Create insert_Client (seed_client1 L cfg R) w1 of
        (_, w2) \<Rightarrow>
     (case gorm_Create (insert_into resources resources_update)
             \<lparr>Id_pk = 0, ResourceIdentifier = ''authserver'',
              Resource_Description = ''Authorization server (system-level)''\<rparr> w2 of
        ((resource, _), w3) \<Rightarrow>
     (case gorm_Create insert_Permission
             (seed_permission ''account'' ''View and update user account data for the current user'' resource) w3 of
        ((permission1, _), w4) \<Rightarrow>
     (case gorm_Create insert_Permission
             (seed_permission ''admin-website''
                ''Manage the authorization server settings via the web interface'' resource) w4 of
        ((permission2, _), w5) \<Rightarrow>
     (case gorm_Create insert_User
             ((seed_user L cfg R)\<lparr>User_Permissions := [permission1, permission2]\<rparr>) w5 of
        (_, w6) \<Rightarrow>
     (case gorm_Create insert_Permission
             (seed_permission ''admin-rest-api''
                ''Manage the authorization server settings via the REST API'' resource) w6 of
        (_, w7) \<Rightarrow> w7))))))"

definition seed :: "lib \<Rightarrow> config \<Rightarrow> seed_rand \<Rightarrow> world \<Rightarrow> err option \<times> world" where
  "seed L cfg R w0 =
     (case isDbEmpty w0 of
        (is_empty, w1) \<Rightarrow>
          if is_empty then
            (let w7 = seed_accounts L cfg R w1 in
             case seed_KeyPair L KeyStateCurrent (rnd_privateKey_current R) (rnd_kid_current R) of
               Inl err \<Rightarrow> (Some err, w7)
             | Inr keyPair \<Rightarrow>
                 (case gorm_Create (insert_into key_pairs key_pairs_update) keyPair w7 of
                    (_, w8) \<Rightarrow>
                      (case seed_KeyPair L KeyStateNext (rnd_privateKey_next R) (rnd_kid_next R) of
                         Inl err \<Rightarrow> (Some err, w8)
                       | Inr keyPair \<Rightarrow>
                           (case gorm_Create (insert_into key_pairs key_pairs_update) keyPair w8 of
                              (_, w9) \<Rightarrow>
                                (case gorm_Create (insert_into settings settings_update) (seed_settings R) w9 of
                                   (_, w10) \<Rightarrow> (None, w10))))))
          else (None, w1))"

section \<open>The logout handler\<close>

text \<open>
  The request as the handler reads it: the query parameters of the URL, the value of
  \<^verbatim>\<open>common.ContextKeySessionIdentifier\<close> in the context, and what \<^verbatim>\<open>s.getLoggedInSubject(r)\<close>
  gives. The cookie store is an input too: what \<^verbatim>\<open>sessionStore.Get\<close> and \<^verbatim>\<open>sess.Save\<close>
  return.
\<close>

record request =
  query :: "(string \<times> string) list"
  ctx_SessionIdentifier :: "string option"
  LoggedInSubject :: string

record session_store =
  store_Get :: "(string \<times> string) list \<times> err option"
  sess_Save :: "err option"

datatype audit =
    AuditDeletedUserSession nat nat string
  | AuditLogout nat string

datatype response = InternalServerError err | Redirect string nat

text \<open>
  What a run of the handler leaves: the response, the world, the values of the cookie
  session that were saved (\<open>None\<close> when \<^verbatim>\<open>sess.Save\<close> was not reached or failed), and the
  audit log.
\<close>

record handled =
  resp :: response
  world_after :: world
  saved_Values :: "(string \<times> string) list option"
  audit_log :: "audit list"

definition StatusFound :: nat where
  "StatusFound = 302"

definition handleAccountLogoutGet :: "config \<Rightarrow> session_store \<Rightarrow> request \<Rightarrow> world \<Rightarrow> handled" where
  "handleAccountLogoutGet cfg store r w =
     (case store_Get store of
        (sess_Values, err) \<Rightarrow>
          if err \<noteq> None
          then \<lparr>resp = InternalServerError (the err), world_after = w, saved_Values = None, audit_log = []\<rparr>
          else
            (let sessionIdentifier = (case ctx_SessionIdentifier r of None \<Rightarrow> [] | Some v \<Rightarrow> v);
                 finish = (\<lambda>userId log w'.
                   if sess_Save store \<noteq> None
                   then \<lparr>resp = InternalServerError (the (sess_Save store)), world_after = w',
                         saved_Values = None, audit_log = log\<rparr>
                   else \<lparr>resp = Redirect (BaseUrl cfg @ ''/account/profile'') StatusFound,
                         world_after = w', saved_Values = Some [],
                         audit_log = (if userId > 0 then log @ [AuditLogout userId (LoggedInSubject r)] else log)\<rparr>)
             in if length sessionIdentifier > 0 then
                  (case GetUserSessionBySessionIdentifier sessionIdentifier w of
                     ((userSession, err), w1) \<Rightarrow>
                       if err \<noteq> None
                       then \<lparr>resp = InternalServerError (the err), world_after = w1,
                             saved_Values = None, audit_log = []\<rparr>
                       else
                         (case userSession of
                            None \<Rightarrow> finish 0 [] w1
                          | Some us \<Rightarrow>
                              (case DeleteUserSession (Id_pk us) w1 of
                                 (err, w2) \<Rightarrow>
                                   if err \<noteq> None
                                   then \<lparr>resp = InternalServerError (the err), world_after = w2,
                                         saved_Values = None, audit_log = []\<rparr>
                                   else finish (UserSession_UserId us)
                                          [AuditDeletedUserSession (UserSession_UserId us) (Id_pk us)
                                             (LoggedInSubject r)] w2)))
                else finish 0 [] w))"

section \<open>The test helper that reads a client's secret\<close>

text \<open>\<^verbatim>\<open>getClientSecret\<close> of the integration tests; \<^verbatim>\<open>t.Fatal\<close> and a nil dereference abort it.\<close>

definition getClientSecret :: "lib \<Rightarrow> string \<Rightarrow> world \<Rightarrow> string outcome \<times> world" where
  "getClientSecret L clientIdentifier w =
     (case GetClientByClientIdentifier clientIdentifier w of
        ((client, err), w1) \<Rightarrow>
          if err \<noteq> None then (Aborts ''t.Fatal'', w1)
          else
            (case GetSettings w1 of
               ((settings', err), w2) \<Rightarrow>
                 if err \<noteq> None then (Aborts ''t.Fatal'', w2)
                 else
                   (case (client, settings') of
                      (Some c, Some st) \<Rightarrow>
                        (case DecryptText L (ClientSecretEncrypted c) (AESEncryptionKey st) of
                           (secret, err) \<Rightarrow>
                             if err \<noteq> None then (Aborts ''t.Fatal'', w2) else (Returns secret, w2))
                    | _ \<Rightarrow> (Aborts ''nil pointer dereference'', w2))))"

section \<open>The code issuer and the code lookup of the token endpoint\<close>

text \<open>
  Modelled from the spec: \<^verbatim>\<open>core_authorize.CodeIssuer\<close> and the token handler are not among
  the sources (the integration tests call them through HTTP). The inputs of the authorize
  request are those of section 4.3 of the spec; the context adds what the flow has
  resolved when it reaches \<^verbatim>\<open>issue_code\<close>.
\<close>

datatype response_mode = query_mode | fragment_mode

record authorize_request =
  req_client_id :: string
  req_redirect_uri :: string
  req_response_type :: string
  req_scope :: string
  req_state :: string
  req_nonce :: string
  req_code_challenge :: string
  req_code_challenge_method :: string
  req_acr_values :: string
  req_response_mode :: response_mode

record issue_context = authorize_request +
  ctx_ClientId :: nat
  ctx_UserId :: nat
  ctx_granted_scope :: string
  ctx_AcrLevel :: string
  ctx_AuthMethods :: string

text \<open>
  Modelled from the spec: \<^verbatim>\<open>lib.GenerateSecureRandomString\<close> is not among the sources. The
  spec asks for a 128-character random code, and the integration tests assert that length
  (\<^verbatim>\<open>assert.Equal(t, 128, len(code))\<close>); the function returns the first \<open>n\<close> characters that the
  random source delivers.
\<close>

definition GenerateSecureRandomString :: "nat \<Rightarrow> char stream \<Rightarrow> string" where
  "GenerateSecureRandomString n rnd = stake n rnd"

text \<open>The redirect to the client: the redirect URI, the response mode and the parameters.\<close>

record code_redirect =
  location :: string
  mode :: response_mode
  params :: "(string \<times> string) list"

text \<open>
  Modelled from the spec: the Code Issuer. It generates the code, stores
  \<^verbatim>\<open>SHA-256(code)\<close> (\<^verbatim>\<open>lib.HashString\<close>, as the tests compute it) with the bound fields,
  \<^verbatim>\<open>expires-at = issued-at + 60s\<close> and \<^verbatim>\<open>used=false\<close>, and redirects with \<^verbatim>\<open>code\<close> and \<^verbatim>\<open>state\<close>.
\<close>

definition issue_code ::
  "lib \<Rightarrow> char stream \<Rightarrow> nat \<Rightarrow> issue_context \<Rightarrow> world \<Rightarrow> (code_redirect option \<times> err option) \<times> world" where
  "issue_code L rnd now ctx w =
     (let code = GenerateSecureRandomString 128 rnd in
      case HashString L code of
        (codeHash, err) \<Rightarrow>
          if err \<noteq> None then ((None, err), w)
          else
            (case CreateCode
                    \<lparr>Id_pk = 0,
                     Code_Code = codeHash,
                     Code_ClientId = ctx_ClientId ctx,
                     Code_UserId = ctx_UserId ctx,
                     Code_Scope = ctx_granted_scope ctx,
                     Code_RedirectURI = req_redirect_uri ctx,
                     CodeChallenge = req_code_challenge ctx,
                     CodeChallengeMethod = req_code_challenge_method ctx,
                     Code_Nonce = req_nonce ctx,
                     Code_State = req_state ctx,
                     Code_AcrLevel = ctx_AcrLevel ctx,
                     Code_AuthMethods = ctx_AuthMethods ctx,
                     IssuedAt = now,
                     ExpiresAt = now + 60,
                     Used = False,
                     Code_Client = None,
                     Code_User = None\<rparr> w of
               ((_, err), w') \<Rightarrow>
                 if err \<noteq> None then ((None, err), w')
                 else
                   ((Some \<lparr>location = req_redirect_uri ctx,
                           mode = req_response_mode ctx,
                           params = [(''code'', code), (''state'', req_state ctx)]\<rparr>, None), w')))"

text \<open>
  Modelled from the spec: the lookup of the \<^verbatim>\<open>authorization_code\<close> grant, by
  \<^verbatim>\<open>SHA-256(presented_code)\<close> and \<^verbatim>\<open>used=false\<close>; the query is \<^verbatim>\<open>GetCode\<close> of the repository.
\<close>

definition lookup_presented_code :: "lib \<Rightarrow> string \<Rightarrow> world \<Rightarrow> (Code option \<times> err option) \<times> world" where
  "lookup_presented_code L presented_code w =
     (case HashString L presented_code of
        (codeHash, err) \<Rightarrow> if err \<noteq> None then ((None, err), w) else GetCode codeHash False w)"

text \<open>
  Modelled from the spec: \<^verbatim>\<open>UPDATE codes SET used=true WHERE id=? AND used=false\<close>; the
  result is the number of rows affected.
\<close>

definition mark_code_used :: "nat \<Rightarrow> world \<Rightarrow> (nat \<times> err option) \<times> world" where
  "mark_code_used i w =
     (case next_fault (faults w) of
        (Some msg, fs) \<Rightarrow> ((0, Some (Fault msg)), w\<lparr>faults := fs\<rparr>)
      | (None, fs) \<Rightarrow>
          ((length (filter (\<lambda>c. Id_pk c = i \<and> \<not> Used c) (rows (codes (db w)))), None),
           \<lparr>db = codes_update (rows_update (map (\<lambda>c. if Id_pk c = i \<and> \<not> Used c then c\<lparr>Used := True\<rparr> else c))) (db w),
            faults = fs\<rparr>))"

text \<open>Modelled from the spec: the repository's purge of expired codes, at the time \<open>now\<close>.\<close>

definition purge_expired_codes :: "nat \<Rightarrow> world \<Rightarrow> err option \<times> world" where
  "purge_expired_codes now w = gorm_Delete codes_update (\<lambda>c. ExpiresAt c \<le> now) w"

text \<open>
  What the flows of the spec do to the table of codes: a code is issued, a code is marked
  used, expired codes are purged, a client is deleted with its codes.
\<close>

inductive code_flow_step :: "lib \<Rightarrow> world \<Rightarrow> world \<Rightarrow> bool" for L :: lib where
  flow_issue: "code_flow_step L w (snd (issue_code L rnd now ctx (w\<lparr>faults := fs\<rparr>)))"
| flow_mark_used: "code_flow_step L w (snd (mark_code_used i (w\<lparr>faults := fs\<rparr>)))"
| flow_purge: "code_flow_step L w (snd (purge_expired_codes now (w\<lparr>faults := fs\<rparr>)))"
| flow_DeleteClient: "code_flow_step L w (snd (DeleteClient clientId (w\<lparr>faults := fs\<rparr>)))"

section \<open>The three answers of a lookup\<close>

text \<open>
  The contract of a lookup: with a failing query a nil value and a non-nil error; with
  no matching row nil and nil; otherwise one of the matching rows and a nil error.
\<close>

definition tri_state :: "'r option \<times> err option \<Rightarrow> bool \<Rightarrow> 'r set \<Rightarrow> bool" where
  "tri_state answer failed matching =
     (if failed then fst answer = None \<and> snd answer \<noteq> None
      else if matching = {} then answer = (None, None)
      else snd answer = None \<and> (case fst answer of None \<Rightarrow> False | Some v \<Rightarrow> v \<in> matching))"

definition query_fails :: "world \<Rightarrow> bool" where
  "query_fails w = (fst (next_fault (faults w)) \<noteq> None)"

text \<open>The rows of a table that a condition selects, as a preload returns them.\<close>

definition matching_rows ::
  "(database \<Rightarrow> 'r table) \<Rightarrow> (database \<Rightarrow> 'r \<Rightarrow> 'r) \<Rightarrow> ('r \<Rightarrow> bool) \<Rightarrow> world \<Rightarrow> 'r set" where
  "matching_rows tbl pre cond w = pre (db w) ` set (filter cond (rows (tbl (db w))))"

text \<open>Two databases with the same key pairs and the same settings.\<close>

definition keys_kept :: "database \<Rightarrow> database \<Rightarrow> bool" where
  "keys_kept d d' = (key_pairs d' = key_pairs d \<and> settings d' = settings d)"

text \<open>
  Two databases that differ at most in the join table of clients and permissions, the
  second holding no join row that the first does not hold.
\<close>

definition joins_shrink :: "database \<Rightarrow> database \<Rightarrow> bool" where
  "joins_shrink d d' =
     (d'\<lparr>clients_permissions := []\<rparr> = d\<lparr>clients_permissions := []\<rparr> \<and>
      set (clients_permissions d') \<subseteq> set (clients_permissions d))"

text \<open>
  The second database holds no stored code that the first does not hold; and the codes of a
  database are all hashes of 128-character codes.
\<close>

definition codes_sub :: "database \<Rightarrow> database \<Rightarrow> bool" where
  "codes_sub d d' = (set (map Code_Code (rows (codes d'))) \<subseteq> set (map Code_Code (rows (codes d))))"

definition hashed_codes :: "lib \<Rightarrow> database \<Rightarrow> bool" where
  "hashed_codes L d =
     (\<forall>c\<in>set (rows (codes d)). \<exists>code. length code = 128 \<and> Code_Code c = fst (HashString L code))"

section \<open>Concrete inputs\<close>

text \<open>
  A library instance for running the model: a cipher that prepends the key, hashes that
  pad and cut, a key generator that keeps its entropy.
\<close>

definition example_lib :: lib where
  "example_lib =
     \<lparr>EncryptText = (\<lambda>text key. (key @ text, None)),
      DecryptText = (\<lambda>ct key. if take (length key) ct = key then (drop (length key) ct, None)
                                else ([], Some (ErrNew ''cipher: message authentication failed''))),
      HashPassword = (\<lambda>p. (''$2a$'' @ rev p, None)),
      HashString = (\<lambda>s. (take 64 (s @ replicate 64 (CHR ''0'')), None)),
      GeneratePrivateKey = (\<lambda>bits e. Inr (rsa_PrivateKey (rsa_PublicKey e 65537) bits)),
      EncodePrivateKeyToPEM = (\<lambda>k. ''PRIVATE''),
      MarshalPKIXPublicKey = (\<lambda>k. (''DER'', None)),
      pem_EncodeToMemory = (\<lambda>t b. t @ b),
      MarshalRSAPublicKeyToJWK = (\<lambda>k kid. (''JWK'' @ kid, None))\<rparr>"

definition example_config :: config where
  "example_config = \<lparr>AdminEmail = [], AdminPassword = [], BaseUrl = ''http://localhost:8080''\<rparr>"

definition example_rand :: seed_rand where
  "example_rand =
     \<lparr>rnd_encryptionKey = ''k32'', rnd_clientSecret = ''s60'', rnd_Subject = ''uuid-0'',
      rnd_privateKey_current = 11, rnd_kid_current = ''uuid-1'',
      rnd_privateKey_next = 13, rnd_kid_next = ''uuid-2'',
      rnd_SessionAuthenticationKey = ''k64'', rnd_SessionEncryptionKey = ''k32b''\<rparr>"

definition new_world :: world where
  "new_world = \<lparr>db = empty_database, faults = []\<rparr>"

text \<open>The world after the first start of the server on a new schema.\<close>

definition seeded_world :: world where
  "seeded_world = snd (seed example_lib example_config example_rand new_world)"

text \<open>
  Two first starts of the server on a new schema with a driver that fails once: at the
  eighth gorm call of \<^verbatim>\<open>seed\<close>, which is the \<^verbatim>\<open>Create\<close> of the key pair of state
  \<^verbatim>\<open>current\<close>, and at the tenth, which is the \<^verbatim>\<open>Create\<close> of the settings. After the second,
  the next start of the server, with new random values and a driver that does not fail.
\<close>

definition lost_current_world :: world where
  "lost_current_world =
     snd (seed example_lib example_config example_rand
            (new_world\<lparr>faults := [None, None, None, None, None, None, None,
                                   Some ''invalid connection'']\<rparr>))"

definition lost_settings_world :: world where
  "lost_settings_world =
     snd (seed example_lib example_config example_rand
            (new_world\<lparr>faults := [None, None, None, None, None, None, None, None, None,
                                   Some ''invalid connection'']\<rparr>))"

definition restart_rand :: seed_rand where
  "restart_rand =
     \<lparr>rnd_encryptionKey = ''r32'', rnd_clientSecret = ''r60'', rnd_Subject = ''uuid-5'',
      rnd_privateKey_current = 17, rnd_kid_current = ''uuid-3'',
      rnd_privateKey_next = 19, rnd_kid_next = ''uuid-4'',
      rnd_SessionAuthenticationKey = ''r64'', rnd_SessionEncryptionKey = ''r32b''\<rparr>"

definition restarted_world :: world where
  "restarted_world =
     snd (seed example_lib example_config restart_rand (lost_settings_world\<lparr>faults := []\<rparr>))"

text \<open>A world with one session, and a logout request that carries its identifier.\<close>

definition example_session :: UserSession where
  "example_session =
     \<lparr>Id_pk = 7, SessionIdentifier = ''sid-1'', UserSession_UserId = 1, UserSession_User = None\<rparr>"

definition logout_world :: world where
  "logout_world =
     \<lparr>db = empty_database\<lparr>user_sessions := \<lparr>auto_increment = 7, rows = [example_session]\<rparr>\<rparr>,
      faults = []\<rparr>"


definition example_store :: session_store where
  "example_store = \<lparr>store_Get = ([], None), sess_Save = None\<rparr>"

definition logout_request :: request where
  "logout_request =
     \<lparr>query = [(''post_logout_redirect_uri'', ''https://client.example/bye'')],
      ctx_SessionIdentifier = Some ''sid-1'', LoggedInSubject = ''uuid-0''\<rparr>"

text \<open>A world with two clients, each with a redirect URI, a consent, a code and a permission.\<close>

definition example_client :: "nat \<Rightarrow> string \<Rightarrow> Client" where
  "example_client i ident =
     \<lparr>Id_pk = i, ClientIdentifier = ident, Client_Description = [], Client_Enabled = True,
      ConsentRequired = True, IsPublic = False, AuthorizationCodeEnabled = True,
      DefaultAcrLevel = AcrLevel1, ClientCredentialsEnabled = False, ClientSecretEncrypted = [],
      RedirectURIs = [], Client_Permissions = []\<rparr>"

definition example_code :: "nat \<Rightarrow> string \<Rightarrow> nat \<Rightarrow> Code" where
  "example_code i h clientId =
     \<lparr>Id_pk = i, Code_Code = h, Code_ClientId = clientId, Code_UserId = 1,
      Code_Scope = ''openid'', Code_RedirectURI = ''https://c/cb'', CodeChallenge = [],
      CodeChallengeMethod = ''S256'', Code_Nonce = ''m9n8b7'', Code_State = ''a1b2c3'',
      Code_AcrLevel = ''1'', Code_AuthMethods = ''pwd'', IssuedAt = 0, ExpiresAt = 60,
      Used = False, Code_Client = None, Code_User = None\<rparr>"

definition clients_world :: world where
  "clients_world =
     \<lparr>db = empty_database
        \<lparr>clients := \<lparr>auto_increment = 2,
                      rows = [example_client 1 ''test-client-1'', example_client 2 ''test-client-2'']\<rparr>,
         redirect_uris := \<lparr>auto_increment = 2,
                            rows = [\<lparr>Id_pk = 1, URI = ''https://c/cb'', RedirectURI_ClientId = 1\<rparr>,
                                    \<lparr>Id_pk = 2, URI = ''https://d/cb'', RedirectURI_ClientId = 2\<rparr>]\<rparr>,
         clients_permissions := [(1, 1), (2, 1)],
         permissions := \<lparr>auto_increment = 1,
                          rows = [\<lparr>Id_pk = 1, PermissionIdentifier = ''account'',
                                   Permission_Description = [], Permission_ResourceId = 1,
                                   Permission_Resource = None\<rparr>]\<rparr>,
         user_consents := \<lparr>auto_increment = 2,
                            rows = [\<lparr>Id_pk = 1, UserConsent_ClientId = 1, UserConsent_UserId = 1,
                                     UserConsent_Scope = ''openid'', GrantedAt = 0,
                                     UserConsent_Client = None, UserConsent_User = None\<rparr>,
                                    \<lparr>Id_pk = 2, UserConsent_ClientId = 2, UserConsent_UserId = 1,
                                     UserConsent_Scope = ''openid'', GrantedAt = 0,
                                     UserConsent_Client = None, UserConsent_User = None\<rparr>]\<rparr>,
         codes := \<lparr>auto_increment = 2,
                    rows = [example_code 1 ''h1'' 1, example_code 2 ''h2'' 2]\<rparr>\<rparr>,
      faults = []\<rparr>"

text \<open>The context of scenario 1 of the spec at \<^verbatim>\<open>issue_code\<close>, and a random source.\<close>

definition example_context :: issue_context where
  "example_context =
     \<lparr>req_client_id = ''test-client-1'', req_redirect_uri = ''https://c/cb'',
      req_response_type = ''code'', req_scope = ''openid email'', req_state = ''a1b2c3'',
      req_nonce = ''m9n8b7'', req_code_challenge = ''0BnoD4e6xPCPip8rqZ9Zc2RqWOFfvryu9vzXJN4egoY'',
      req_code_challenge_method = ''S256'', req_acr_values = ''1'', req_response_mode = query_mode,
      ctx_ClientId = 1, ctx_UserId = 1, ctx_granted_scope = ''openid email'',
      ctx_AcrLevel = ''1'', ctx_AuthMethods = ''pwd''\<rparr>"

definition example_random :: "char stream" where
  "example_random = sconst (CHR ''x'')"

section \<open>Lemmas on the gorm calls\<close>

lemma order_id_desc_first_None: "order_id_desc_first rs = None \<longleftrightarrow> rs = []"
  by (induction rs) (auto split: option.splits)

lemma order_id_asc_first_None: "order_id_asc_first rs = None \<longleftrightarrow> rs = []"
  by (induction rs) (auto split: option.splits)

lemma order_id_desc_first_Some:
  "order_id_desc_first rs = Some m \<Longrightarrow> m \<in> set rs \<and> (\<forall>r\<in>set rs. Id_pk r \<le> Id_pk m)"
  by (induction rs arbitrary: m) (auto split: option.splits if_splits simp: order_id_desc_first_None)

lemma order_id_asc_first_Some:
  "order_id_asc_first rs = Some m \<Longrightarrow> m \<in> set rs \<and> (\<forall>r\<in>set rs. Id_pk m \<le> Id_pk r)"
  by (induction rs arbitrary: m) (auto split: option.splits if_splits simp: order_id_asc_first_None)

lemma lookup_return_first_result:
  "lookup_return msg (first_result f sel) =
     (case f of
        Some e \<Rightarrow> (None, Some (Wrap (Fault e) msg))
      | None \<Rightarrow> (case sel of None \<Rightarrow> (None, None) | Some r \<Rightarrow> (Some r, None)))"
  by (simp add: lookup_return_def first_result_def split: option.splits)

lemma db_gorm_First: "db (snd (gorm_First tbl pre cond w)) = db w"
  by (simp add: gorm_First_def split: prod.splits)

lemma db_lookups:
  "db (snd (GetClientById i w)) = db w"
  "db (snd (GetPermissionById i w)) = db w"
  "db (snd (GetUserSessionBySessionIdentifier sid w)) = db w"
  by (simp_all add: GetClientById_def GetPermissionById_def GetUserSessionBySessionIdentifier_def
      case_prod_beta db_gorm_First)

section \<open>Seeding a new database\<close>

lemma seed_user_simps:
  "Id_pk (seed_user L cfg R) = 0"
  "(seed_user L cfg R)\<lparr>User_Permissions := []\<rparr> = seed_user L cfg R"
  by (simp_all add: seed_user_def Let_def)

lemmas seed_unfold =
  seed_accounts_def new_world_def empty_database_def empty_table_def gorm_Create_def
  insert_Client_def insert_User_def insert_Permission_def insert_into_def insert_row_def
  save_Permission_def save_Resource_of_def save_association_def seed_permission_def
  add_join_row_def seed_client1_def Let_def seed_user_simps

lemma seed_accounts_users:
  "users (db (seed_accounts L cfg R new_world)) =
     \<lparr>auto_increment = 1, rows = [(seed_user L cfg R)\<lparr>Id_pk := 1\<rparr>]\<rparr>"
  by (simp add: seed_unfold)

lemma seed_accounts_clients:
  "clients (db (seed_accounts L cfg R new_world)) =
     \<lparr>auto_increment = 1, rows = [(seed_client1 L cfg R)\<lparr>Id_pk := 1, RedirectURIs := []\<rparr>]\<rparr>"
  by (simp add: seed_unfold)

lemma seed_accounts_rest:
  "key_pairs (db (seed_accounts L cfg R new_world)) = empty_table"
  "settings (db (seed_accounts L cfg R new_world)) = empty_table"
  "faults (seed_accounts L cfg R new_world) = []"
  by (simp_all add: seed_unfold)

lemma isDbEmpty_new_world: "isDbEmpty new_world = (True, new_world)"
  by (simp add: isDbEmpty_def gorm_First_def first_result_def new_world_def empty_database_def
      empty_table_def)

lemma seed_KeyPair_Inr:
  "seed_KeyPair L st e kid = Inr k \<Longrightarrow>
     Id_pk k = 0 \<and> KeyPair_State k = KeyState_String st \<and> KeyIdentifier k = kid \<and>
     KeyPair_Type k = ''RSA'' \<and> Algorithm k = ''RS256''"
  by (auto simp: seed_KeyPair_def Let_def split: sum.splits prod.splits if_splits)

text \<open>
  The world after a run of \<^verbatim>\<open>seed\<close> on a new database in which both keys were generated:
  the two key pairs in the order of their creation, and the settings.
\<close>

lemma seed_new_world:
  assumes k1: "seed_KeyPair L KeyStateCurrent (rnd_privateKey_current R) (rnd_kid_current R) = Inr k1"
    and k2: "seed_KeyPair L KeyStateNext (rnd_privateKey_next R) (rnd_kid_next R) = Inr k2"
  shows "seed L cfg R new_world =
           (None,
            \<lparr>db = (db (seed_accounts L cfg R new_world))
                    \<lparr>key_pairs := \<lparr>auto_increment = 2, rows = [k1\<lparr>Id_pk := 1\<rparr>, k2\<lparr>Id_pk := 2\<rparr>]\<rparr>,
                      settings := \<lparr>auto_increment = 1, rows = [(seed_settings R)\<lparr>Id_pk := 1\<rparr>]\<rparr>\<rparr>,
             faults = []\<rparr>)"
proof -
  have i1: "Id_pk k1 = 0" and i2: "Id_pk k2 = 0"
    using seed_KeyPair_Inr [OF k1] seed_KeyPair_Inr [OF k2] by simp_all
  have i3: "Id_pk (seed_settings R) = 0" by (simp add: seed_settings_def)
  show ?thesis
    by (simp add: seed_def isDbEmpty_new_world k1 k2 gorm_Create_def insert_into_def insert_row_def
        seed_accounts_rest empty_table_def i1 i2 i3 Let_def)
qed

text \<open>\<^verbatim>\<open>seed\<close> on a new database returns \<^verbatim>\<open>nil\<close> only when both keys were generated.\<close>

lemma seed_new_world_nil:
  assumes "fst (seed L cfg R new_world) = None"
  shows "\<exists>k1 k2.
           seed_KeyPair L KeyStateCurrent (rnd_privateKey_current R) (rnd_kid_current R) = Inr k1 \<and>
           seed_KeyPair L KeyStateNext (rnd_privateKey_next R) (rnd_kid_next R) = Inr k2"
proof (cases "seed_KeyPair L KeyStateCurrent (rnd_privateKey_current R) (rnd_kid_current R)")
  case (Inl e)
  with assms show ?thesis
    by (simp add: seed_def isDbEmpty_new_world Let_def)
next
  case k1: (Inr k1)
  show ?thesis
  proof (cases "seed_KeyPair L KeyStateNext (rnd_privateKey_next R) (rnd_kid_next R)")
    case (Inl e)
    with assms k1 show ?thesis
      by (simp add: seed_def isDbEmpty_new_world Let_def split: prod.splits)
  next
    case (Inr k2)
    with k1 show ?thesis by simp
  qed
qed

lemma example_KeyPairs:
  "\<exists>k1 k2.
     seed_KeyPair example_lib KeyStateCurrent (rnd_privateKey_current example_rand)
       (rnd_kid_current example_rand) = Inr k1 \<and>
     seed_KeyPair example_lib KeyStateNext (rnd_privateKey_next example_rand)
       (rnd_kid_next example_rand) = Inr k2"
  by (simp add: seed_KeyPair_def example_lib_def example_rand_def)

lemma seed_example: "seed example_lib example_config example_rand new_world = (None, seeded_world)"
proof -
  obtain k1 k2 where
    "seed_KeyPair example_lib KeyStateCurrent (rnd_privateKey_current example_rand)
       (rnd_kid_current example_rand) = Inr k1"
    "seed_KeyPair example_lib KeyStateNext (rnd_privateKey_next example_rand)
       (rnd_kid_next example_rand) = Inr k2"
    using example_KeyPairs by blast
  then have "fst (seed example_lib example_config example_rand new_world) = None"
    by (simp add: seed_new_world)
  then show ?thesis
    by (simp add: seeded_world_def prod_eq_iff)
qed

section \<open>The signing key\<close>

text \<open>Without a failure of the driver, \<^verbatim>\<open>GetSigningKey\<close> returns the row with the greatest \<^verbatim>\<open>Id\<close>.\<close>

lemma GetSigningKey_greatest_Id:
  "faults w = [] \<Longrightarrow> fst (GetSigningKey w) = (order_id_desc_first (rows (key_pairs (db w))), None)"
  by (simp add: GetSigningKey_def gorm_Order_Id_desc_First_def lookup_return_first_result
      split: option.splits)

text \<open>
  C1. The spec has the Key Manager sign with the key pair whose state is \<^verbatim>\<open>current\<close>.
  After \<^verbatim>\<open>seed\<close> has filled a new database, the database holds exactly one key pair of
  state \<^verbatim>\<open>current\<close>, and \<^verbatim>\<open>GetSigningKey\<close> returns another one: the key pair of state
  \<^verbatim>\<open>next\<close>, which was created last and has the greatest \<^verbatim>\<open>Id\<close>.
\<close>

theorem GetSigningKey_after_seed_returns_next:
  assumes "seed L cfg R new_world = (None, w)"
  shows "\<exists>k c. fst (GetSigningKey w) = (Some k, None) \<and> KeyPair_State k = ''next'' \<and>
           filter (\<lambda>x. KeyPair_State x = ''current'') (rows (key_pairs (db w))) = [c] \<and> k \<noteq> c"
proof -
  from assms have "fst (seed L cfg R new_world) = None" by simp
  then obtain k1 k2 where
    k1: "seed_KeyPair L KeyStateCurrent (rnd_privateKey_current R) (rnd_kid_current R) = Inr k1" and
    k2: "seed_KeyPair L KeyStateNext (rnd_privateKey_next R) (rnd_kid_next R) = Inr k2"
    using seed_new_world_nil by blast
  have s1: "KeyPair_State k1 = ''current''" and s2: "KeyPair_State k2 = ''next''"
    using seed_KeyPair_Inr [OF k1] seed_KeyPair_Inr [OF k2] by simp_all
  from assms seed_new_world [OF k1 k2, of cfg]
  have w: "faults w = []"
    "rows (key_pairs (db w)) = [k1\<lparr>Id_pk := 1\<rparr>, k2\<lparr>Id_pk := 2\<rparr>]"
    by auto
  have "fst (GetSigningKey w) = (Some (k2\<lparr>Id_pk := 2\<rparr>), None)"
    by (simp add: GetSigningKey_greatest_Id w)
  moreover have "filter (\<lambda>x. KeyPair_State x = ''current'') (rows (key_pairs (db w))) = [k1\<lparr>Id_pk := 1\<rparr>]"
    by (simp add: w s1 s2)
  moreover have "k2\<lparr>Id_pk := 2\<rparr> \<noteq> k1\<lparr>Id_pk := 1\<rparr>"
  proof
    assume "k2\<lparr>Id_pk := 2\<rparr> = k1\<lparr>Id_pk := 1\<rparr>"
    then have "Id_pk (k2\<lparr>Id_pk := 2\<rparr>) = Id_pk (k1\<lparr>Id_pk := 1\<rparr>)" by (rule arg_cong)
    then show False by simp
  qed
  ultimately show ?thesis using s2 by simp
qed

theorem GetSigningKey_after_seed_returns_next_witness:
  "seed example_lib example_config example_rand new_world = (None, seeded_world) \<and>
   (\<exists>k c. fst (GetSigningKey seeded_world) = (Some k, None) \<and> KeyPair_State k = ''next'' \<and>
      filter (\<lambda>x. KeyPair_State x = ''current'') (rows (key_pairs (db seeded_world))) = [c] \<and> k \<noteq> c)"
  using GetSigningKey_after_seed_returns_next [OF seed_example] seed_example by simp

section \<open>Seeding with a driver that fails\<close>

text \<open>
  \<^verbatim>\<open>seed\<close> drops the result of every \<^verbatim>\<open>Create\<close>. The creates of its first part write
  neither key pairs nor settings, and each takes one entry of the plan of failures.
\<close>

lemma keys_kept_refl: "keys_kept d d"
  by (simp add: keys_kept_def)

lemma keys_kept_trans: "keys_kept d d1 \<Longrightarrow> keys_kept d1 d2 \<Longrightarrow> keys_kept d d2"
  by (simp add: keys_kept_def)

lemma keys_kept_save_Permission: "keys_kept d (snd (save_Permission p d))"
  by (simp add: save_Permission_def save_Resource_of_def save_association_def keys_kept_def
      split: prod.splits option.splits)

lemma keys_kept_save_joined_permissions:
  assumes "\<And>f d. keys_kept d (upd f d)"
  shows "keys_kept d (snd (save_joined_permissions upd i ps d))"
proof (induction ps arbitrary: d)
  case Nil
  then show ?case by (simp add: keys_kept_refl)
next
  case (Cons p ps)
  obtain p' d1 where sp: "save_Permission p d = (p', d1)" by fastforce
  have 1: "keys_kept d d1"
    using keys_kept_save_Permission [of d p] sp by simp
  have 2: "keys_kept d1 (upd (add_join_row (i, Id_pk p')) d1)"
    by (rule assms)
  have 3: "keys_kept (upd (add_join_row (i, Id_pk p')) d1)
             (snd (save_joined_permissions upd i ps (upd (add_join_row (i, Id_pk p')) d1)))"
    by (rule Cons.IH)
  from 1 2 3 have "keys_kept d (snd (save_joined_permissions upd i ps (upd (add_join_row (i, Id_pk p')) d1)))"
    by (blast intro: keys_kept_trans)
  then show ?case
    by (simp add: sp case_prod_beta)
qed

lemma keys_kept_save_RedirectURIs: "keys_kept d (snd (save_RedirectURIs i us d))"
proof (induction us arbitrary: d)
  case Nil
  then show ?case by (simp add: keys_kept_refl)
next
  case (Cons u us)
  let ?d1 = "d\<lparr>redirect_uris := snd (save_association (u\<lparr>RedirectURI_ClientId := i\<rparr>) (redirect_uris d))\<rparr>"
  have "keys_kept d ?d1"
    by (simp add: keys_kept_def)
  moreover have "keys_kept ?d1 (snd (save_RedirectURIs i us ?d1))"
    by (rule Cons.IH)
  ultimately have "keys_kept d (snd (save_RedirectURIs i us ?d1))"
    by (rule keys_kept_trans)
  then show ?case
    by (simp add: case_prod_beta)
qed

lemma keys_kept_insert_Client:
  assumes "insert_Client c d = Some (c', d')"
  shows "keys_kept d d'"
proof (cases "insert_row (c\<lparr>RedirectURIs := [], Client_Permissions := []\<rparr>) (clients d)")
  case None
  with assms show ?thesis by (simp add: insert_Client_def)
next
  case (Some a)
  obtain c1 t where a: "a = (c1, t)" by fastforce
  let ?d1 = "snd (save_RedirectURIs (Id_pk c1) (RedirectURIs c) (d\<lparr>clients := t\<rparr>))"
  from assms Some a have
    d': "d' = snd (save_joined_permissions clients_permissions_update (Id_pk c1) (Client_Permissions c) ?d1)"
    by (auto simp add: insert_Client_def case_prod_beta)
  have 1: "keys_kept d (d\<lparr>clients := t\<rparr>)" by (simp add: keys_kept_def)
  have 2: "keys_kept (d\<lparr>clients := t\<rparr>) ?d1"
    by (rule keys_kept_save_RedirectURIs)
  have 3: "keys_kept ?d1 d'"
    unfolding d' by (rule keys_kept_save_joined_permissions) (simp add: keys_kept_def)
  from 1 2 3 show ?thesis by (blast intro: keys_kept_trans)
qed

lemma keys_kept_insert_User:
  assumes "insert_User u d = Some (u', d')"
  shows "keys_kept d d'"
proof (cases "insert_row (u\<lparr>User_Permissions := []\<rparr>) (users d)")
  case None
  with assms show ?thesis by (simp add: insert_User_def)
next
  case (Some a)
  obtain u1 t where a: "a = (u1, t)" by fastforce
  from assms Some a have
    d': "d' = snd (save_joined_permissions users_permissions_update (Id_pk u1) (User_Permissions u) (d\<lparr>users := t\<rparr>))"
    by (auto simp add: insert_User_def case_prod_beta)
  have 1: "keys_kept d (d\<lparr>users := t\<rparr>)" by (simp add: keys_kept_def)
  have 2: "keys_kept (d\<lparr>users := t\<rparr>) d'"
    unfolding d' by (rule keys_kept_save_joined_permissions) (simp add: keys_kept_def)
  from 1 2 show ?thesis by (rule keys_kept_trans)
qed

lemma keys_kept_insert_Permission: "insert_Permission p d = Some (p', d') \<Longrightarrow> keys_kept d d'"
  by (auto simp add: insert_Permission_def save_Resource_of_def save_association_def keys_kept_def
      split: option.splits prod.splits)

lemma keys_kept_insert_resources:
  "insert_into resources resources_update r d = Some (r', d') \<Longrightarrow> keys_kept d d'"
  by (auto simp add: insert_into_def keys_kept_def split: option.splits)

lemma keys_kept_gorm_Create:
  assumes "\<And>r d r' d'. ins r d = Some (r', d') \<Longrightarrow> keys_kept d d'"
  shows "keys_kept (db w) (db (snd (gorm_Create ins r w)))"
  using assms by (auto simp add: gorm_Create_def keys_kept_refl split: prod.splits option.splits)

lemma faults_gorm_Create: "faults (snd (gorm_Create ins r w)) = tl (faults w)"
  by (cases "faults w") (simp_all add: gorm_Create_def split: option.splits)

lemma seed_Creates_keep:
  "key_pairs (db (snd (gorm_Create insert_Client c w))) = key_pairs (db w)"
  "settings (db (snd (gorm_Create insert_Client c w))) = settings (db w)"
  "key_pairs (db (snd (gorm_Create (insert_into resources resources_update) r w))) = key_pairs (db w)"
  "settings (db (snd (gorm_Create (insert_into resources resources_update) r w))) = settings (db w)"
  "key_pairs (db (snd (gorm_Create insert_Permission p w))) = key_pairs (db w)"
  "settings (db (snd (gorm_Create insert_Permission p w))) = settings (db w)"
  "key_pairs (db (snd (gorm_Create insert_User u w))) = key_pairs (db w)"
  "settings (db (snd (gorm_Create insert_User u w))) = settings (db w)"
  using keys_kept_gorm_Create [OF keys_kept_insert_Client, where w = w and r = c]
    keys_kept_gorm_Create [OF keys_kept_insert_resources, where w = w and r = r]
    keys_kept_gorm_Create [OF keys_kept_insert_Permission, where w = w and r = p]
    keys_kept_gorm_Create [OF keys_kept_insert_User, where w = w and r = u]
  by (simp_all add: keys_kept_def)

lemma seed_accounts_keeps:
  "key_pairs (db (seed_accounts L cfg R w)) = key_pairs (db w)"
  "settings (db (seed_accounts L cfg R w)) = settings (db w)"
  "faults (seed_accounts L cfg R w) = tl (tl (tl (tl (tl (tl (faults w))))))"
  by (simp_all only: seed_accounts_def case_prod_beta seed_Creates_keep faults_gorm_Create)

lemma example_KeyPair_current:
  "seed_KeyPair example_lib KeyStateCurrent e kid =
     Inr \<lparr>Id_pk = 0, KeyPair_State = ''current'', KeyIdentifier = kid, KeyPair_Type = ''RSA'',
          Algorithm = ''RS256'', PrivateKeyPEM = ''PRIVATE'', PublicKeyPEM = ''RSA PUBLIC KEYDER'',
          PublicKeyASN1_DER = ''DER'', PublicKeyJWK = ''JWK'' @ kid\<rparr>"
  by (simp add: seed_KeyPair_def example_lib_def)

lemma example_KeyPair_next:
  "seed_KeyPair example_lib KeyStateNext e kid =
     Inr \<lparr>Id_pk = 0, KeyPair_State = ''next'', KeyIdentifier = kid, KeyPair_Type = ''RSA'',
          Algorithm = ''RS256'', PrivateKeyPEM = ''PRIVATE'', PublicKeyPEM = ''RSA PUBLIC KEYDER'',
          PublicKeyASN1_DER = ''DER'', PublicKeyJWK = ''JWK'' @ kid\<rparr>"
  by (simp add: seed_KeyPair_def example_lib_def)

lemmas seed_eval =
  seed_def isDbEmpty_def gorm_First_def first_result_def gorm_Create_def insert_into_def
  insert_row_def seed_accounts_keeps example_KeyPair_current
  example_KeyPair_next new_world_def empty_database_def empty_table_def seed_settings_def Let_def

lemma lost_current:
  "fst (seed example_lib example_config example_rand
          (new_world\<lparr>faults := [None, None, None, None, None, None, None,
                                 Some ''invalid connection'']\<rparr>)) = None"
  "map KeyPair_State (rows (key_pairs (db lost_current_world))) = [''next'']"
  "map Id_pk (rows (settings (db lost_current_world))) = [1]"
  by (simp_all add: lost_current_world_def seed_eval)

lemma lost_settings:
  "fst (seed example_lib example_config example_rand
          (new_world\<lparr>faults := [None, None, None, None, None, None, None, None, None,
                                 Some ''invalid connection'']\<rparr>)) = None"
  "key_pairs (db lost_settings_world) =
     \<lparr>auto_increment = 2,
      rows = [\<lparr>Id_pk = 1, KeyPair_State = ''current'', KeyIdentifier = ''uuid-1'', KeyPair_Type = ''RSA'',
          Algorithm = ''RS256'', PrivateKeyPEM = ''PRIVATE'', PublicKeyPEM = ''RSA PUBLIC KEYDER'',
          PublicKeyASN1_DER = ''DER'', PublicKeyJWK = ''JWKuuid-1''\<rparr>,
         \<lparr>Id_pk = 2, KeyPair_State = ''next'', KeyIdentifier = ''uuid-2'', KeyPair_Type = ''RSA'',
          Algorithm = ''RS256'', PrivateKeyPEM = ''PRIVATE'', PublicKeyPEM = ''RSA PUBLIC KEYDER'',
          PublicKeyASN1_DER = ''DER'', PublicKeyJWK = ''JWKuuid-2''\<rparr>]\<rparr>"
  "settings (db lost_settings_world) = empty_table"
  by (simp_all add: lost_settings_world_def seed_eval example_rand_def)

lemma restarted:
  "fst (seed example_lib example_config restart_rand (lost_settings_world\<lparr>faults := []\<rparr>)) = None"
  "map KeyPair_State (rows (key_pairs (db restarted_world))) = [''current'', ''next'', ''current'', ''next'']"
  "map Id_pk (rows (settings (db restarted_world))) = [1]"
  by (simp_all add: restarted_world_def seed_def isDbEmpty_def gorm_First_def first_result_def
      gorm_Create_def insert_into_def insert_row_def seed_accounts_keeps
      example_KeyPair_current example_KeyPair_next lost_settings empty_table_def
      seed_settings_def Let_def)

lemma count_states:
  "length (filter (\<lambda>k. KeyPair_State k = st) ks) = length (filter (\<lambda>s. s = st) (map KeyPair_State ks))"
  by (simp add: filter_map comp_def)

text \<open>
  C7. The spec has exactly one key pair of state \<^verbatim>\<open>current\<close> in every state after the
  initial seeding. \<^verbatim>\<open>seed\<close> creates one, but it does not look at the result of a \<^verbatim>\<open>Create\<close>,
  and \<^verbatim>\<open>isDbEmpty\<close> looks at the settings only. When the driver fails at the \<^verbatim>\<open>Create\<close> of the
  \<^verbatim>\<open>current\<close> key pair, \<^verbatim>\<open>seed\<close> still returns \<^verbatim>\<open>nil\<close> and writes the settings: the database
  counts as seeded and holds the \<^verbatim>\<open>next\<close> key pair alone. When the driver fails at the
  \<^verbatim>\<open>Create\<close> of the settings, \<^verbatim>\<open>seed\<close> returns \<^verbatim>\<open>nil\<close> as well, the database still counts as
  empty, and the next start seeds it again: it then holds two key pairs of state \<^verbatim>\<open>current\<close>
  and two of state \<^verbatim>\<open>next\<close>.
\<close>

theorem seed_failures_break_key_pair_states:
  "fst (seed example_lib example_config example_rand
          (new_world\<lparr>faults := [None, None, None, None, None, None, None,
                                 Some ''invalid connection'']\<rparr>)) = None \<and>
   fst (isDbEmpty (lost_current_world\<lparr>faults := []\<rparr>)) = False \<and>
   map KeyPair_State (rows (key_pairs (db lost_current_world))) = [''next''] \<and>
   length (filter (\<lambda>k. KeyPair_State k = ''current'') (rows (key_pairs (db lost_current_world)))) = 0 \<and>
   fst (seed example_lib example_config example_rand
          (new_world\<lparr>faults := [None, None, None, None, None, None, None, None, None,
                                 Some ''invalid connection'']\<rparr>)) = None \<and>
   fst (isDbEmpty (lost_settings_world\<lparr>faults := []\<rparr>)) = True \<and>
   fst (seed example_lib example_config restart_rand (lost_settings_world\<lparr>faults := []\<rparr>)) = None \<and>
   map KeyPair_State (rows (key_pairs (db restarted_world))) =
     [''current'', ''next'', ''current'', ''next''] \<and>
   length (filter (\<lambda>k. KeyPair_State k = ''current'') (rows (key_pairs (db restarted_world)))) = 2 \<and>
   length (filter (\<lambda>k. KeyPair_State k = ''next'') (rows (key_pairs (db restarted_world)))) = 2"
proof -
  have "rows (settings (db lost_current_world)) \<noteq> []"
    using lost_current(3) by auto
  then have e1: "fst (isDbEmpty (lost_current_world\<lparr>faults := []\<rparr>)) = False"
    by (simp add: isDbEmpty_def gorm_First_def first_result_def order_id_asc_first_None
        split: option.splits)
  have e2: "fst (isDbEmpty (lost_settings_world\<lparr>faults := []\<rparr>)) = True"
    by (simp add: isDbEmpty_def gorm_First_def first_result_def lost_settings(3) empty_table_def)
  show ?thesis
    by (simp add: lost_current lost_settings(1) restarted e1 e2 count_states)
qed

section \<open>The admin user\<close>

lemma seed_users_new_world:
  "users (db (snd (seed L cfg R new_world))) =
     \<lparr>auto_increment = 1, rows = [(seed_user L cfg R)\<lparr>Id_pk := 1\<rparr>]\<rparr>"
proof -
  have c: "users (db (snd (gorm_Create (insert_into key_pairs key_pairs_update) k w))) = users (db w)" for k w
    by (simp add: gorm_Create_def insert_into_def split: prod.splits option.splits)
  have s: "users (db (snd (gorm_Create (insert_into settings settings_update) k w))) = users (db w)" for k w
    by (simp add: gorm_Create_def insert_into_def split: prod.splits option.splits)
  show ?thesis
    by (simp add: seed_def isDbEmpty_new_world Let_def case_prod_beta c s seed_accounts_users
        split: sum.splits)
qed

text \<open>
  C10. \<^verbatim>\<open>seed\<close> on a new database creates one user, whatever the configuration: with an
  empty \<^verbatim>\<open>AdminEmail\<close> its email is \<^verbatim>\<open>admin@example.com\<close>, with an empty \<^verbatim>\<open>AdminPassword\<close> its
  password hash is \<^verbatim>\<open>lib.HashPassword\<close> of \<^verbatim>\<open>admin123\<close>; the account is enabled and the email is
  marked verified. The seeding returns \<^verbatim>\<open>nil\<close> whenever the two keys are generated: empty
  admin settings do not make it fail.
\<close>

theorem seed_admin_defaults:
  "\<exists>u. rows (users (db (snd (seed L cfg R new_world)))) = [u] \<and>
     (AdminEmail cfg = [] \<longrightarrow> Email u = ''admin@example.com'') \<and>
     (AdminPassword cfg = [] \<longrightarrow> PasswordHash u = fst (HashPassword L ''admin123'')) \<and>
     EmailVerified u \<and> User_Enabled u \<and>
     ((\<exists>k1 k2.
         seed_KeyPair L KeyStateCurrent (rnd_privateKey_current R) (rnd_kid_current R) = Inr k1 \<and>
         seed_KeyPair L KeyStateNext (rnd_privateKey_next R) (rnd_kid_next R) = Inr k2)
      \<longrightarrow> fst (seed L cfg R new_world) = None)"
  by (auto simp add: seed_users_new_world seed_user_def seed_new_world)

theorem seed_admin_defaults_witness:
  "AdminEmail example_config = [] \<and> AdminPassword example_config = [] \<and>
   fst (seed example_lib example_config example_rand new_world) = None \<and>
   map Email (rows (users (db seeded_world))) = [''admin@example.com''] \<and>
   map PasswordHash (rows (users (db seeded_world))) = [fst (HashPassword example_lib ''admin123'')] \<and>
   map EmailVerified (rows (users (db seeded_world))) = [True] \<and>
   map User_Enabled (rows (users (db seeded_world))) = [True]"
  using seed_admin_defaults [of example_lib example_config example_rand] example_KeyPairs
  by (auto simp add: seeded_world_def example_config_def)

section \<open>The lookups of the repository\<close>

lemma tri_state_gorm_First:
  "tri_state
     (fst (case gorm_First tbl pre cond w of (result, w') \<Rightarrow> (lookup_return msg result, w')))
     (query_fails w) (matching_rows tbl pre cond w)"
proof (cases "next_fault (faults w)")
  case (Pair f fs)
  show ?thesis
  proof (cases f)
    case (Some e)
    with Pair show ?thesis
      by (simp add: tri_state_def query_fails_def gorm_First_def lookup_return_first_result)
  next
    case None
    show ?thesis
    proof (cases "order_id_asc_first (filter cond (rows (tbl (db w))))")
      case None': None
      then have "filter cond (rows (tbl (db w))) = []"
        by (simp add: order_id_asc_first_None)
      with Pair None None' show ?thesis
        by (simp add: tri_state_def query_fails_def gorm_First_def lookup_return_first_result
            matching_rows_def)
    next
      case (Some m)
      then have "m \<in> set (filter cond (rows (tbl (db w))))"
        using order_id_asc_first_Some by blast
      with Pair None Some show ?thesis
        by (auto simp add: tri_state_def query_fails_def gorm_First_def lookup_return_first_result
            matching_rows_def)
    qed
  qed
qed

lemma tri_state_GetSigningKey:
  "tri_state (fst (GetSigningKey w)) (query_fails w) (set (rows (key_pairs (db w))))"
proof (cases "next_fault (faults w)")
  case (Pair f fs)
  show ?thesis
  proof (cases f)
    case (Some e)
    with Pair show ?thesis
      by (simp add: tri_state_def query_fails_def GetSigningKey_def gorm_Order_Id_desc_First_def
          lookup_return_first_result)
  next
    case None
    show ?thesis
    proof (cases "order_id_desc_first (rows (key_pairs (db w)))")
      case None': None
      then have "rows (key_pairs (db w)) = []"
        by (simp add: order_id_desc_first_None)
      with Pair None None' show ?thesis
        by (simp add: tri_state_def query_fails_def GetSigningKey_def gorm_Order_Id_desc_First_def
            lookup_return_first_result)
    next
      case (Some m)
      then have "m \<in> set (rows (key_pairs (db w)))"
        using order_id_desc_first_Some by blast
      with Pair None Some show ?thesis
        by (auto simp add: tri_state_def query_fails_def GetSigningKey_def
            gorm_Order_Id_desc_First_def lookup_return_first_result)
    qed
  qed
qed

text \<open>
  C5. Every lookup of one entity in the repository answers in one of three ways: when the
  query fails, a nil value and a non-nil error; when no row matches, a nil value and a nil
  error; otherwise a row that matches (with its preloads) and a nil error.
\<close>

theorem repository_lookups_tri_state:
  "tri_state (fst (GetClientByClientIdentifier clientIdentifier w)) (query_fails w)
     (matching_rows clients preload_Client (\<lambda>c. ClientIdentifier c = clientIdentifier) w) \<and>
   tri_state (fst (GetClientById clientId w)) (query_fails w)
     (matching_rows clients preload_Client (\<lambda>c. Id_pk c = clientId) w) \<and>
   tri_state (fst (GetUserByEmail email w)) (query_fails w)
     (matching_rows users preload_User (\<lambda>u. Email u = email) w) \<and>
   tri_state (fst (GetUserByUsername username w)) (query_fails w)
     (matching_rows users preload_User (\<lambda>u. Username u = username) w) \<and>
   tri_state (fst (GetUserById userId w)) (query_fails w)
     (matching_rows users preload_User (\<lambda>u. Id_pk u = userId) w) \<and>
   tri_state (fst (GetUserBySubject subject w)) (query_fails w)
     (matching_rows users preload_User (\<lambda>u. Subject u = subject) w) \<and>
   tri_state (fst (GetCode code used w)) (query_fails w)
     (matching_rows codes preload_Code (\<lambda>c. Code_Code c = code \<and> Used c = used) w) \<and>
   tri_state (fst (GetUserSessionBySessionIdentifier sessionIdentifier w)) (query_fails w)
     (matching_rows user_sessions preload_UserSession (\<lambda>s. SessionIdentifier s = sessionIdentifier) w) \<and>
   tri_state (fst (GetUserConsent consentUserId consentClientId w)) (query_fails w)
     (matching_rows user_consents preload_UserConsent
        (\<lambda>c. UserConsent_UserId c = consentUserId \<and> UserConsent_ClientId c = consentClientId) w) \<and>
   tri_state (fst (GetSettings w)) (query_fails w)
     (matching_rows settings no_preload (\<lambda>_. True) w) \<and>
   tri_state (fst (GetPermissionById permissionId w)) (query_fails w)
     (matching_rows permissions preload_Permission (\<lambda>p. Id_pk p = permissionId) w) \<and>
   tri_state (fst (GetPermissionByPermissionIdentifier permissionIdentifier w)) (query_fails w)
     (matching_rows permissions preload_Permission (\<lambda>p. PermissionIdentifier p = permissionIdentifier) w) \<and>
   tri_state (fst (GetResourceById resourceId w)) (query_fails w)
     (matching_rows resources no_preload (\<lambda>r. Id_pk r = resourceId) w) \<and>
   tri_state (fst (GetResourceByResourceIdentifier resourceIdentifier w)) (query_fails w)
     (matching_rows resources no_preload (\<lambda>r. ResourceIdentifier r = resourceIdentifier) w) \<and>
   tri_state (fst (GetPreRegistrationByEmail preRegistrationEmail w)) (query_fails w)
     (matching_rows pre_registrations no_preload (\<lambda>p. PreRegistration_Email p = preRegistrationEmail) w) \<and>
   tri_state (fst (GetRoleById roleId w)) (query_fails w)
     (matching_rows roles no_preload (\<lambda>r. Id_pk r = roleId) w) \<and>
   tri_state (fst (GetRoleByRoleIdentifier roleIdentifier w)) (query_fails w)
     (matching_rows roles no_preload (\<lambda>r. RoleIdentifier r = roleIdentifier) w) \<and>
   tri_state (fst (GetSigningKey w)) (query_fails w) (set (rows (key_pairs (db w))))"
  unfolding GetClientByClientIdentifier_def GetClientById_def GetUserByEmail_def
    GetUserByUsername_def GetUserById_def GetUserBySubject_def GetCode_def
    GetUserSessionBySessionIdentifier_def GetUserConsent_def GetSettings_def GetPermissionById_def
    GetPermissionByPermissionIdentifier_def GetResourceById_def GetResourceByResourceIdentifier_def
    GetPreRegistrationByEmail_def GetRoleById_def GetRoleByRoleIdentifier_def
  by (intro conjI tri_state_gorm_First tri_state_GetSigningKey)

theorem repository_lookups_tri_state_witness:
  "fst (GetUserSessionBySessionIdentifier ''sid-0'' logout_world) = (None, None) \<and>
   fst (fst (GetUserSessionBySessionIdentifier ''sid-1'' logout_world)) \<noteq> None \<and>
   snd (fst (GetUserSessionBySessionIdentifier ''sid-1'' logout_world)) = None \<and>
   fst (fst (GetUserSessionBySessionIdentifier ''sid-1''
               (logout_world\<lparr>faults := [Some ''connection lost'']\<rparr>))) = None \<and>
   snd (fst (GetUserSessionBySessionIdentifier ''sid-1''
               (logout_world\<lparr>faults := [Some ''connection lost'']\<rparr>))) \<noteq> None"
proof -
  have q: "\<not> query_fails logout_world" "query_fails (logout_world\<lparr>faults := [Some ''connection lost'']\<rparr>)"
    by (simp_all add: query_fails_def logout_world_def)
  have m0: "matching_rows user_sessions preload_UserSession (\<lambda>s. SessionIdentifier s = ''sid-0'') logout_world = {}"
    by (simp add: matching_rows_def logout_world_def example_session_def)
  have m1: "matching_rows user_sessions preload_UserSession (\<lambda>s. SessionIdentifier s = ''sid-1'') logout_world \<noteq> {}"
    by (simp add: matching_rows_def logout_world_def example_session_def)
  have t0: "tri_state (fst (GetUserSessionBySessionIdentifier ''sid-0'' logout_world))
      (query_fails logout_world)
      (matching_rows user_sessions preload_UserSession (\<lambda>s. SessionIdentifier s = ''sid-0'') logout_world)"
    using repository_lookups_tri_state [where w = logout_world and sessionIdentifier = "''sid-0''"]
    by blast
  have t1: "tri_state (fst (GetUserSessionBySessionIdentifier ''sid-1'' logout_world))
      (query_fails logout_world)
      (matching_rows user_sessions preload_UserSession (\<lambda>s. SessionIdentifier s = ''sid-1'') logout_world)"
    using repository_lookups_tri_state [where w = logout_world and sessionIdentifier = "''sid-1''"]
    by blast
  have t2: "tri_state
      (fst (GetUserSessionBySessionIdentifier ''sid-1'' (logout_world\<lparr>faults := [Some ''connection lost'']\<rparr>)))
      (query_fails (logout_world\<lparr>faults := [Some ''connection lost'']\<rparr>))
      (matching_rows user_sessions preload_UserSession (\<lambda>s. SessionIdentifier s = ''sid-1'')
         (logout_world\<lparr>faults := [Some ''connection lost'']\<rparr>))"
    using repository_lookups_tri_state [where w = "logout_world\<lparr>faults := [Some ''connection lost'']\<rparr>"
        and sessionIdentifier = "''sid-1''"]
    by blast
  from t0 t1 t2 show ?thesis
    using q m0 m1 by (auto simp add: tri_state_def split: option.splits)
qed


section \<open>Logout\<close>

lemma handler_query: "handleAccountLogoutGet cfg store (r\<lparr>query := q\<rparr>) w = handleAccountLogoutGet cfg store r w"
  by (simp add: handleAccountLogoutGet_def case_prod_beta Let_def
      cong: if_cong option.case_cong)

lemma handler_resp:
  "(case resp (handleAccountLogoutGet cfg store r w) of
      Redirect loc code \<Rightarrow> loc = BaseUrl cfg @ ''/account/profile'' \<and> code = 302
    | InternalServerError e \<Rightarrow> True)"
  by (simp add: handleAccountLogoutGet_def case_prod_beta Let_def StatusFound_def
      split: option.splits)


lemma handler_no_failure:
  "snd (store_Get store) = None \<Longrightarrow> sess_Save store = None \<Longrightarrow> faults w = [] \<Longrightarrow>
     resp (handleAccountLogoutGet cfg store r w) = Redirect (BaseUrl cfg @ ''/account/profile'') 302"
  by (simp add: handleAccountLogoutGet_def case_prod_beta Let_def StatusFound_def
      GetUserSessionBySessionIdentifier_def gorm_First_def lookup_return_first_result
      DeleteUserSession_def gorm_Delete_def
      split: option.splits)

text \<open>
  C9. The handler does not read the query of the request, so a \<^verbatim>\<open>post_logout_redirect_uri\<close>
  changes nothing: every redirect it sends goes to \<^verbatim>\<open>/account/profile\<close> under the base URL
  with status 302, and it sends that redirect whenever the cookie store and the database
  do not fail.
\<close>

theorem logout_redirects_to_profile:
  "handleAccountLogoutGet cfg store (r\<lparr>query := q\<rparr>) w = handleAccountLogoutGet cfg store r w \<and>
   (\<forall>loc code. resp (handleAccountLogoutGet cfg store r w) = Redirect loc code \<longrightarrow>
      loc = BaseUrl cfg @ ''/account/profile'' \<and> code = 302) \<and>
   (snd (store_Get store) = None \<and> sess_Save store = None \<and> faults w = [] \<longrightarrow>
      resp (handleAccountLogoutGet cfg store r w) = Redirect (BaseUrl cfg @ ''/account/profile'') 302)"
proof (intro conjI allI impI)
  show "handleAccountLogoutGet cfg store (r\<lparr>query := q\<rparr>) w = handleAccountLogoutGet cfg store r w"
    by (rule handler_query)
next
  fix loc code
  assume "resp (handleAccountLogoutGet cfg store r w) = Redirect loc code"
  with handler_resp [where cfg = cfg and store = store and r = r and w = w]
  show "loc = BaseUrl cfg @ ''/account/profile''" and "code = 302"
    by simp_all
next
  assume "snd (store_Get store) = None \<and> sess_Save store = None \<and> faults w = []"
  then show "resp (handleAccountLogoutGet cfg store r w) = Redirect (BaseUrl cfg @ ''/account/profile'') 302"
    by (simp add: handler_no_failure)
qed

lemmas logout_eval =
  handleAccountLogoutGet_def GetUserSessionBySessionIdentifier_def gorm_First_def
  first_result_def lookup_return_def DeleteUserSession_def gorm_Delete_def logout_world_def
  example_session_def empty_database_def empty_table_def preload_UserSession_def find_by_id_def
  example_store_def logout_request_def example_config_def StatusFound_def Let_def

theorem logout_redirects_to_profile_witness:
  "snd (store_Get example_store) = None \<and> sess_Save example_store = None \<and> faults logout_world = [] \<and>
   handleAccountLogoutGet example_config example_store (logout_request\<lparr>query := []\<rparr>) logout_world =
     handleAccountLogoutGet example_config example_store logout_request logout_world \<and>
   resp (handleAccountLogoutGet example_config example_store logout_request logout_world) =
     Redirect (BaseUrl example_config @ ''/account/profile'') 302"
proof -
  note t = logout_redirects_to_profile [where cfg = example_config and store = example_store
      and r = logout_request and q = "[]" and w = logout_world]
  have h: "snd (store_Get example_store) = None \<and> sess_Save example_store = None \<and> faults logout_world = []"
    by (simp add: example_store_def logout_world_def)
  from t have 1: "handleAccountLogoutGet example_config example_store (logout_request\<lparr>query := []\<rparr>) logout_world =
     handleAccountLogoutGet example_config example_store logout_request logout_world"
    by (rule conjunct1)
  from t h have 2: "resp (handleAccountLogoutGet example_config example_store logout_request logout_world) =
     Redirect (BaseUrl example_config @ ''/account/profile'') 302"
    by blast
  from h 1 2 show ?thesis by blast
qed

theorem logout_post_logout_redirect_uri_counterexample:
  "map_of (query logout_request) ''post_logout_redirect_uri'' = Some ''https://client.example/bye'' \<and>
   resp (handleAccountLogoutGet example_config example_store logout_request logout_world) =
     Redirect ''http://localhost:8080/account/profile'' 302 \<and>
   rows (user_sessions (db (world_after
     (handleAccountLogoutGet example_config example_store logout_request logout_world)))) = []"
  by (simp add: logout_eval)

lemma gorm_Delete_ok:
  "fst (gorm_Delete upd cond w) = None \<Longrightarrow>
     db (snd (gorm_Delete upd cond w)) = upd (rows_update (filter (\<lambda>r. \<not> cond r))) (db w)"
  by (simp add: gorm_Delete_def split: prod.splits option.splits)









section \<open>The secret of the seeded client\<close>

lemma preload_Client_simps:
  "ClientSecretEncrypted (preload_Client d c) = ClientSecretEncrypted c"
  "Id_pk (preload_Client d c) = Id_pk c"
  by (simp_all add: preload_Client_def)

lemma seeded_tables:
  assumes "seed L cfg R new_world = (None, w)"
  shows "faults w = []"
    and "rows (clients (db w)) = [(seed_client1 L cfg R)\<lparr>Id_pk := 1, RedirectURIs := []\<rparr>]"
    and "rows (settings (db w)) = [(seed_settings R)\<lparr>Id_pk := 1\<rparr>]"
proof -
  from assms have "fst (seed L cfg R new_world) = None" by simp
  then obtain k1 k2 where
    k1: "seed_KeyPair L KeyStateCurrent (rnd_privateKey_current R) (rnd_kid_current R) = Inr k1" and
    k2: "seed_KeyPair L KeyStateNext (rnd_privateKey_next R) (rnd_kid_next R) = Inr k2"
    using seed_new_world_nil by blast
  from assms seed_new_world [OF k1 k2, of cfg]
  show "faults w = []"
    and "rows (clients (db w)) = [(seed_client1 L cfg R)\<lparr>Id_pk := 1, RedirectURIs := []\<rparr>]"
    and "rows (settings (db w)) = [(seed_settings R)\<lparr>Id_pk := 1\<rparr>]"
    by (auto simp add: seed_accounts_clients)
qed

text \<open>
  C4. The confidential client that \<^verbatim>\<open>seed\<close> creates holds its secret as
  \<^verbatim>\<open>lib.EncryptText(clientSecret, encryptionKey)\<close>, under the key that the settings row keeps
  as \<^verbatim>\<open>AESEncryptionKey\<close>; where decryption inverts encryption, \<^verbatim>\<open>getClientSecret\<close> of the
  integration tests recovers the secret from the two rows.
\<close>

theorem seeded_client_secret_is_encrypted:
  assumes "seed L cfg R new_world = (None, w)"
    and "DecryptText L (fst (EncryptText L (rnd_clientSecret R) (rnd_encryptionKey R)))
           (rnd_encryptionKey R) = (rnd_clientSecret R, None)"
  shows "(\<exists>c st. rows (clients (db w)) = [c] \<and> rows (settings (db w)) = [st] \<and> \<not> IsPublic c \<and>
            ClientSecretEncrypted c = fst (EncryptText L (rnd_clientSecret R) (AESEncryptionKey st))) \<and>
         fst (getClientSecret L ''system-website'' w) = Returns (rnd_clientSecret R)"
proof -
  note t = seeded_tables [OF assms(1)]
  let ?c = "(seed_client1 L cfg R)\<lparr>Id_pk := 1, RedirectURIs := []\<rparr>"
  let ?st = "(seed_settings R)\<lparr>Id_pk := 1\<rparr>"
  have c: "ClientIdentifier ?c = ''system-website''" "\<not> IsPublic ?c"
    "ClientSecretEncrypted ?c = fst (EncryptText L (rnd_clientSecret R) (rnd_encryptionKey R))"
    by (simp_all add: seed_client1_def Let_def)
  have st: "AESEncryptionKey ?st = rnd_encryptionKey R"
    by (simp add: seed_settings_def)
  have g1: "GetClientByClientIdentifier ''system-website'' w = ((Some (preload_Client (db w) ?c), None), w)"
    using t c(1)
    by (simp add: GetClientByClientIdentifier_def gorm_First_def lookup_return_first_result)
  have g2: "GetSettings w = ((Some ?st, None), w)"
    using t
    by (simp add: GetSettings_def gorm_First_def lookup_return_first_result no_preload_def)
  have c': "ClientSecretEncrypted (seed_client1 L cfg R) =
      fst (EncryptText L (rnd_clientSecret R) (rnd_encryptionKey R))"
    by (simp add: seed_client1_def Let_def)
  have st': "AESEncryptionKey (seed_settings R) = rnd_encryptionKey R"
    by (simp add: seed_settings_def)
  have "fst (getClientSecret L ''system-website'' w) = Returns (rnd_clientSecret R)"
    using assms(2)
    by (simp add: getClientSecret_def g1 g2 preload_Client_simps c' st')
  with t c st show ?thesis by simp
qed

lemma example_roundtrip:
  "DecryptText example_lib (fst (EncryptText example_lib (rnd_clientSecret example_rand)
      (rnd_encryptionKey example_rand))) (rnd_encryptionKey example_rand) =
     (rnd_clientSecret example_rand, None)"
  by (simp add: example_lib_def example_rand_def)

theorem seeded_client_secret_is_encrypted_witness:
  "seed example_lib example_config example_rand new_world = (None, seeded_world) \<and>
   DecryptText example_lib (fst (EncryptText example_lib (rnd_clientSecret example_rand)
      (rnd_encryptionKey example_rand))) (rnd_encryptionKey example_rand) =
     (rnd_clientSecret example_rand, None) \<and>
   fst (getClientSecret example_lib ''system-website'' seeded_world) = Returns (rnd_clientSecret example_rand)"
proof -
  from seeded_client_secret_is_encrypted [OF seed_example example_roundtrip]
  have "fst (getClientSecret example_lib ''system-website'' seeded_world) = Returns (rnd_clientSecret example_rand)"
    by (rule conjunct2)
  with seed_example example_roundtrip show ?thesis by blast
qed

theorem client_secret_recovered_counterexample:
  "map IsPublic (rows (clients (db seeded_world))) = [False] \<and>
   map ClientSecretEncrypted (rows (clients (db seeded_world))) = [fst (EncryptText example_lib ''s60'' ''k32'')] \<and>
   map AESEncryptionKey (rows (settings (db seeded_world))) = [''k32''] \<and>
   DecryptText example_lib (fst (EncryptText example_lib ''s60'' ''k32'')) ''k32'' = (''s60'', None) \<and>
   fst (getClientSecret example_lib ''system-website'' seeded_world) = Returns ''s60''"
proof -
  note t = seeded_tables [OF seed_example]
  have 1: "map IsPublic (rows (clients (db seeded_world))) = [False]"
    "map ClientSecretEncrypted (rows (clients (db seeded_world))) = [fst (EncryptText example_lib ''s60'' ''k32'')]"
    by (simp_all add: t seed_client1_def Let_def example_rand_def)
  have 2: "map AESEncryptionKey (rows (settings (db seeded_world))) = [''k32'']"
    by (simp add: t seed_settings_def example_rand_def)
  have 3: "DecryptText example_lib (fst (EncryptText example_lib ''s60'' ''k32'')) ''k32'' = (''s60'', None)"
    by (simp add: example_lib_def)
  have g1: "GetClientByClientIdentifier ''system-website'' seeded_world =
      ((Some (preload_Client (db seeded_world)
          ((seed_client1 example_lib example_config example_rand)\<lparr>Id_pk := 1, RedirectURIs := []\<rparr>)), None),
       seeded_world)"
    using t
    by (simp add: GetClientByClientIdentifier_def gorm_First_def lookup_return_first_result
        seed_client1_def Let_def)
  have g2: "GetSettings seeded_world = ((Some ((seed_settings example_rand)\<lparr>Id_pk := 1\<rparr>), None), seeded_world)"
    using t
    by (simp add: GetSettings_def gorm_First_def lookup_return_first_result no_preload_def)
  have 4: "fst (getClientSecret example_lib ''system-website'' seeded_world) = Returns ''s60''"
    by (simp add: getClientSecret_def g1 g2 preload_Client_simps seed_client1_def Let_def
        seed_settings_def example_rand_def example_lib_def)
  from 1 2 3 4 show ?thesis by blast
qed

section \<open>Deleting a client\<close>

lemma joins_shrink_refl: "joins_shrink d d"
  by (simp add: joins_shrink_def)

lemma joins_shrink_trans: "joins_shrink d d1 \<Longrightarrow> joins_shrink d1 d2 \<Longrightarrow> joins_shrink d d2"
  by (auto simp add: joins_shrink_def)

lemma joins_shrink_tables:
  assumes "joins_shrink d d'"
  shows "codes d' = codes d" "user_consents d' = user_consents d" "redirect_uris d' = redirect_uris d"
    "clients d' = clients d" "permissions d' = permissions d"
proof -
  from assms have e: "d'\<lparr>clients_permissions := []\<rparr> = d\<lparr>clients_permissions := []\<rparr>"
    by (simp add: joins_shrink_def)
  have "codes (d'\<lparr>clients_permissions := []\<rparr>) = codes (d\<lparr>clients_permissions := []\<rparr>)"
    "user_consents (d'\<lparr>clients_permissions := []\<rparr>) = user_consents (d\<lparr>clients_permissions := []\<rparr>)"
    "redirect_uris (d'\<lparr>clients_permissions := []\<rparr>) = redirect_uris (d\<lparr>clients_permissions := []\<rparr>)"
    "clients (d'\<lparr>clients_permissions := []\<rparr>) = clients (d\<lparr>clients_permissions := []\<rparr>)"
    "permissions (d'\<lparr>clients_permissions := []\<rparr>) = permissions (d\<lparr>clients_permissions := []\<rparr>)"
    by (simp_all only: e)
  then show "codes d' = codes d" "user_consents d' = user_consents d" "redirect_uris d' = redirect_uris d"
    "clients d' = clients d" "permissions d' = permissions d"
    by simp_all
qed

lemma lookup_Some:
  assumes "fst (case gorm_First tbl pre cond w of (result, w') \<Rightarrow> (lookup_return msg result, w')) = (Some v, e)"
  shows "\<exists>r\<in>set (rows (tbl (db w))). cond r \<and> v = pre (db w) r"
proof -
  from tri_state_gorm_First [of msg tbl pre cond w] assms
  have "v \<in> matching_rows tbl pre cond w"
    by (auto simp add: tri_state_def split: if_splits)
  then show ?thesis
    by (auto simp add: matching_rows_def)
qed

lemma GetClientById_Some:
  assumes "fst (GetClientById c w) = (Some cl, e)"
  shows "\<exists>r\<in>set (rows (clients (db w))). Id_pk r = c \<and> cl = preload_Client (db w) r"
  using assms unfolding GetClientById_def by (rule lookup_Some)

lemma GetPermissionById_Some:
  assumes "fst (GetPermissionById p w) = (Some pm, e)"
  shows "Id_pk pm = p"
proof -
  from assms have "\<exists>r\<in>set (rows (permissions (db w))). Id_pk r = p \<and> pm = preload_Permission (db w) r"
    unfolding GetPermissionById_def by (rule lookup_Some)
  then show ?thesis by (auto simp add: preload_Permission_def)
qed

lemma lookup_found:
  assumes "snd (fst (case gorm_First tbl pre cond w of (result, w') \<Rightarrow> (lookup_return msg result, w'))) = None"
    and "\<exists>r\<in>set (rows (tbl (db w))). cond r"
  shows "\<exists>v. fst (case gorm_First tbl pre cond w of (result, w') \<Rightarrow> (lookup_return msg result, w')) =
           (Some v, None)"
proof -
  from assms(2) have "matching_rows tbl pre cond w \<noteq> {}"
    by (auto simp add: matching_rows_def filter_empty_conv)
  with tri_state_gorm_First [of msg tbl pre cond w] assms(1) show ?thesis
    by (auto simp add: tri_state_def prod_eq_iff split: if_splits option.splits)
qed

lemma GetPermissionById_found:
  assumes "snd (fst (GetPermissionById p w)) = None"
    and "\<exists>r\<in>set (rows (permissions (db w))). Id_pk r = p"
  shows "\<exists>pm. fst (GetPermissionById p w) = (Some pm, None)"
  using assms unfolding GetPermissionById_def by (rule lookup_found)

lemma joins_shrink_Association_Delete:
  "joins_shrink (db w) (db (snd (Association_Permissions_Delete c p w)))"
  by (auto simp add: Association_Permissions_Delete_def joins_shrink_def
      split: option.splits prod.splits)

lemma Association_Delete_removes:
  assumes "fst (Association_Permissions_Delete c (Some pm) w) = None"
  shows "\<exists>cl. c = Some cl \<and>
           (Id_pk cl, Id_pk pm) \<notin>
             set (clients_permissions (db (snd (Association_Permissions_Delete c (Some pm) w))))"
  using assms
  by (auto simp add: Association_Permissions_Delete_def split: option.splits prod.splits)

lemma joins_shrink_DeleteClientPermission:
  "joins_shrink (db w) (db (snd (DeleteClientPermission c p w)))"
proof -
  have "joins_shrink (db w)
          (db (snd (Association_Permissions_Delete x y (snd (GetPermissionById p (snd (GetClientById c w)))))))" for x y
    using joins_shrink_Association_Delete [of "snd (GetPermissionById p (snd (GetClientById c w)))" x y]
    by (simp add: db_lookups)
  then show ?thesis
    by (simp add: DeleteClientPermission_def case_prod_beta db_lookups joins_shrink_refl)
qed

lemma DeleteClientPermission_removes:
  assumes "fst (DeleteClientPermission c p w) = None"
    and "\<exists>r\<in>set (rows (permissions (db w))). Id_pk r = p"
  shows "(c, p) \<notin> set (clients_permissions (db (snd (DeleteClientPermission c p w))))"
proof -
  let ?w1 = "snd (GetClientById c w)"
  let ?w2 = "snd (GetPermissionById p ?w1)"
  let ?client = "fst (fst (GetClientById c w))"
  let ?permission = "fst (fst (GetPermissionById p ?w1))"
  from assms(1) have e1: "snd (fst (GetClientById c w)) = None"
    by (simp add: DeleteClientPermission_def case_prod_beta split: if_splits)
  with assms(1) have e2: "snd (fst (GetPermissionById p ?w1)) = None"
    by (simp add: DeleteClientPermission_def case_prod_beta split: if_splits)
  from assms(1) e1 e2 have a: "fst (Association_Permissions_Delete ?client ?permission ?w2) = None"
    by (simp add: DeleteClientPermission_def case_prod_beta split: if_splits)
  from e1 e2 have s: "snd (DeleteClientPermission c p w) =
      snd (Association_Permissions_Delete ?client ?permission ?w2)"
    by (simp add: DeleteClientPermission_def case_prod_beta)
  from assms(2) have "\<exists>r\<in>set (rows (permissions (db ?w1))). Id_pk r = p"
    by (simp add: db_lookups)
  with e2 obtain pm where pm: "fst (GetPermissionById p ?w1) = (Some pm, None)"
    using GetPermissionById_found by blast
  then have p: "?permission = Some pm" by simp
  from a obtain cl where
    c: "?client = Some cl" and
    r: "(Id_pk cl, Id_pk pm) \<notin> set (clients_permissions (db (snd (Association_Permissions_Delete ?client ?permission ?w2))))"
    unfolding p using Association_Delete_removes by blast
  from c e1 have "fst (GetClientById c w) = (Some cl, None)" by (simp add: prod_eq_iff)
  then have "Id_pk cl = c"
    using GetClientById_Some by (fastforce simp add: preload_Client_def)
  moreover from pm have "Id_pk pm = p" by (rule GetPermissionById_Some)
  ultimately show ?thesis using r s by simp
qed

lemma joins_shrink_DeleteClient_permissions:
  "joins_shrink (db w) (db (snd (DeleteClient_permissions c ps w)))"
proof (induction ps arbitrary: w)
  case Nil
  then show ?case by (simp add: joins_shrink_refl)
next
  case (Cons p ps)
  show ?case
    using joins_shrink_DeleteClientPermission [of w c "Id_pk p"]
      Cons.IH [of "snd (DeleteClientPermission c (Id_pk p) w)"]
    by (auto simp add: case_prod_beta intro: joins_shrink_trans)
qed

lemma DeleteClient_permissions_removes:
  assumes "fst (DeleteClient_permissions c ps w) = None"
    and "\<forall>p\<in>set ps. \<exists>r\<in>set (rows (permissions (db w))). Id_pk r = Id_pk p"
  shows "\<forall>p\<in>set ps. (c, Id_pk p) \<notin> set (clients_permissions (db (snd (DeleteClient_permissions c ps w))))"
  using assms
proof (induction ps arbitrary: w)
  case Nil
  then show ?case by simp
next
  case (Cons p ps)
  let ?w1 = "snd (DeleteClientPermission c (Id_pk p) w)"
  from Cons.prems(1) have 1: "fst (DeleteClientPermission c (Id_pk p) w) = None"
    by (simp add: case_prod_beta split: if_splits)
  with Cons.prems(1) have 2: "fst (DeleteClient_permissions c ps ?w1) = None"
    by (simp add: case_prod_beta)
  from 1 have s: "snd (DeleteClient_permissions c (p # ps) w) = snd (DeleteClient_permissions c ps ?w1)"
    by (simp add: case_prod_beta)
  note t = joins_shrink_tables [OF joins_shrink_DeleteClientPermission [of w c "Id_pk p"]]
  from Cons.prems(2) have 3: "\<forall>q\<in>set ps. \<exists>r\<in>set (rows (permissions (db ?w1))). Id_pk r = Id_pk q"
    by (simp add: t)
  from Cons.prems(2) have "\<exists>r\<in>set (rows (permissions (db w))). Id_pk r = Id_pk p"
    by simp
  with 1 have "(c, Id_pk p) \<notin> set (clients_permissions (db ?w1))"
    by (rule DeleteClientPermission_removes)
  moreover have "set (clients_permissions (db (snd (DeleteClient_permissions c ps ?w1)))) \<subseteq>
      set (clients_permissions (db ?w1))"
    using joins_shrink_DeleteClient_permissions [of ?w1 c ps] by (simp add: joins_shrink_def)
  ultimately have "(c, Id_pk p) \<notin> set (clients_permissions (db (snd (DeleteClient_permissions c ps ?w1))))"
    by blast
  with Cons.IH [OF 2 3] s show ?case by simp
qed


lemma DeleteClient_nil:
  assumes "DeleteClient c w = (Returns None, w')"
  defines "w1 \<equiv> snd (gorm_Delete user_consents_update (\<lambda>x. UserConsent_ClientId x = c) w)"
  defines "w2 \<equiv> snd (gorm_Delete redirect_uris_update (\<lambda>x. RedirectURI_ClientId x = c) w1)"
  defines "w3 \<equiv> snd (gorm_Delete codes_update (\<lambda>x. Code_ClientId x = c) w2)"
  defines "w4 \<equiv> snd (GetClientById c w3)"
  shows "\<exists>cl. fst (gorm_Delete user_consents_update (\<lambda>x. UserConsent_ClientId x = c) w) = None \<and>
           fst (gorm_Delete redirect_uris_update (\<lambda>x. RedirectURI_ClientId x = c) w1) = None \<and>
           fst (gorm_Delete codes_update (\<lambda>x. Code_ClientId x = c) w2) = None \<and>
           fst (GetClientById c w3) = (Some cl, None) \<and>
           fst (DeleteClient_permissions c (Client_Permissions cl) w4) = None \<and>
           fst (gorm_Delete clients_update (\<lambda>x. Id_pk x = c)
                  (snd (DeleteClient_permissions c (Client_Permissions cl) w4))) = None \<and>
           w' = snd (gorm_Delete clients_update (\<lambda>x. Id_pk x = c)
                  (snd (DeleteClient_permissions c (Client_Permissions cl) w4)))"
proof -
  from assms(1) have e1: "fst (gorm_Delete user_consents_update (\<lambda>x. UserConsent_ClientId x = c) w) = None"
    by (simp add: DeleteClient_def case_prod_beta split: if_splits)
  with assms(1) have e2: "fst (gorm_Delete redirect_uris_update (\<lambda>x. RedirectURI_ClientId x = c) w1) = None"
    by (simp add: DeleteClient_def case_prod_beta w1_def split: if_splits)
  with assms(1) e1 have e3: "fst (gorm_Delete codes_update (\<lambda>x. Code_ClientId x = c) w2) = None"
    by (simp add: DeleteClient_def case_prod_beta w1_def w2_def split: if_splits)
  from assms(1) e1 e2 e3 have e4: "snd (fst (GetClientById c w3)) = None"
    by (simp add: DeleteClient_def case_prod_beta w1_def w2_def w3_def split: if_splits)
  from assms(1) e1 e2 e3 e4 obtain cl where cl: "fst (fst (GetClientById c w3)) = Some cl"
    by (cases "fst (fst (GetClientById c w3))")
      (simp_all add: DeleteClient_def case_prod_beta w1_def w2_def w3_def)
  from assms(1) e1 e2 e3 e4 cl
  have e5: "fst (DeleteClient_permissions c (Client_Permissions cl) w4) = None"
    by (simp add: DeleteClient_def case_prod_beta w1_def w2_def w3_def w4_def
        split: if_splits)
  from assms(1) e1 e2 e3 e4 cl e5
  have e6: "fst (gorm_Delete clients_update (\<lambda>x. Id_pk x = c)
                  (snd (DeleteClient_permissions c (Client_Permissions cl) w4))) = None"
    and w': "w' = snd (gorm_Delete clients_update (\<lambda>x. Id_pk x = c)
                  (snd (DeleteClient_permissions c (Client_Permissions cl) w4)))"
    by (simp_all add: DeleteClient_def case_prod_beta w1_def w2_def w3_def w4_def
        split: if_splits)
  from e4 cl have "fst (GetClientById c w3) = (Some cl, None)"
    by (simp add: prod_eq_iff)
  with e1 e2 e3 e5 e6 w' show ?thesis by blast
qed

lemma DeleteClient_effect:
  assumes "DeleteClient clientId w = (Returns None, w')"
  shows "rows (codes (db w')) = filter (\<lambda>x. Code_ClientId x \<noteq> clientId) (rows (codes (db w))) \<and>
         rows (user_consents (db w')) =
           filter (\<lambda>x. UserConsent_ClientId x \<noteq> clientId) (rows (user_consents (db w))) \<and>
         rows (redirect_uris (db w')) =
           filter (\<lambda>x. RedirectURI_ClientId x \<noteq> clientId) (rows (redirect_uris (db w))) \<and>
         rows (clients (db w')) = filter (\<lambda>x. Id_pk x \<noteq> clientId) (rows (clients (db w))) \<and>
         (\<forall>x\<in>set (rows (codes (db w'))). Code_ClientId x \<noteq> clientId) \<and>
         (\<forall>x\<in>set (rows (user_consents (db w'))). UserConsent_ClientId x \<noteq> clientId) \<and>
         (\<forall>x\<in>set (rows (redirect_uris (db w'))). RedirectURI_ClientId x \<noteq> clientId) \<and>
         (\<forall>p\<in>set (rows (permissions (db w))). (clientId, Id_pk p) \<notin> set (clients_permissions (db w')))"
proof -
  define w1 where "w1 = snd (gorm_Delete user_consents_update (\<lambda>x. UserConsent_ClientId x = clientId) w)"
  define w2 where "w2 = snd (gorm_Delete redirect_uris_update (\<lambda>x. RedirectURI_ClientId x = clientId) w1)"
  define w3 where "w3 = snd (gorm_Delete codes_update (\<lambda>x. Code_ClientId x = clientId) w2)"
  define w4 where "w4 = snd (GetClientById clientId w3)"
  from DeleteClient_nil [OF assms] obtain cl where
    e1: "fst (gorm_Delete user_consents_update (\<lambda>x. UserConsent_ClientId x = clientId) w) = None" and
    e2: "fst (gorm_Delete redirect_uris_update (\<lambda>x. RedirectURI_ClientId x = clientId) w1) = None" and
    e3: "fst (gorm_Delete codes_update (\<lambda>x. Code_ClientId x = clientId) w2) = None" and
    e4: "fst (GetClientById clientId w3) = (Some cl, None)" and
    e5: "fst (DeleteClient_permissions clientId (Client_Permissions cl) w4) = None" and
    e6: "fst (gorm_Delete clients_update (\<lambda>x. Id_pk x = clientId)
                  (snd (DeleteClient_permissions clientId (Client_Permissions cl) w4))) = None" and
    w': "w' = snd (gorm_Delete clients_update (\<lambda>x. Id_pk x = clientId)
                  (snd (DeleteClient_permissions clientId (Client_Permissions cl) w4)))"
    unfolding w1_def w2_def w3_def w4_def by blast
  define w5 where "w5 = snd (DeleteClient_permissions clientId (Client_Permissions cl) w4)"
  have d1: "db w1 = user_consents_update (rows_update (filter (\<lambda>x. UserConsent_ClientId x \<noteq> clientId))) (db w)"
    unfolding w1_def using gorm_Delete_ok [OF e1] by simp
  have d2: "db w2 = redirect_uris_update (rows_update (filter (\<lambda>x. RedirectURI_ClientId x \<noteq> clientId))) (db w1)"
    unfolding w2_def using gorm_Delete_ok [OF e2] by simp
  have d3: "db w3 = codes_update (rows_update (filter (\<lambda>x. Code_ClientId x \<noteq> clientId))) (db w2)"
    unfolding w3_def using gorm_Delete_ok [OF e3] by simp
  have d4: "db w4 = db w3"
    unfolding w4_def by (rule db_lookups)
  have d5: "joins_shrink (db w4) (db w5)"
    unfolding w5_def by (rule joins_shrink_DeleteClient_permissions)
  have d6: "db w' = clients_update (rows_update (filter (\<lambda>x. Id_pk x \<noteq> clientId))) (db w5)"
    unfolding w' w5_def using gorm_Delete_ok [OF e6] by simp
  note t5 = joins_shrink_tables [OF d5]
  have codes: "rows (codes (db w')) = filter (\<lambda>x. Code_ClientId x \<noteq> clientId) (rows (codes (db w)))"
    by (simp add: d6 t5 d4 d3 d2 d1)
  have consents: "rows (user_consents (db w')) =
      filter (\<lambda>x. UserConsent_ClientId x \<noteq> clientId) (rows (user_consents (db w)))"
    by (simp add: d6 t5 d4 d3 d2 d1)
  have uris: "rows (redirect_uris (db w')) =
      filter (\<lambda>x. RedirectURI_ClientId x \<noteq> clientId) (rows (redirect_uris (db w)))"
    by (simp add: d6 t5 d4 d3 d2 d1)
  have clients: "rows (clients (db w')) = filter (\<lambda>x. Id_pk x \<noteq> clientId) (rows (clients (db w)))"
    by (simp add: d6 t5 d4 d3 d2 d1)
  have perms: "permissions (db w3) = permissions (db w)"
    and joins3: "clients_permissions (db w3) = clients_permissions (db w)"
    by (simp_all add: d3 d2 d1)
  have joins': "clients_permissions (db w') = clients_permissions (db w5)"
    by (simp add: d6)
  have detached: "(clientId, Id_pk p) \<notin> set (clients_permissions (db w'))"
    if p: "p \<in> set (rows (permissions (db w)))" for p
  proof (cases "(clientId, Id_pk p) \<in> set (clients_permissions (db w))")
    case False
    with d5 show ?thesis
      by (auto simp add: joins_shrink_def joins' d4 joins3)
  next
    case True
    from GetClientById_Some [OF e4] obtain r where
      "Id_pk r = clientId" and cl: "cl = preload_Client (db w3) r"
      by blast
    then have "Client_Permissions cl =
        map (preload_Permission (db w3)) (joined_permissions (db w3) (clients_permissions (db w3)) clientId)"
      by (simp add: preload_Client_def)
    moreover from p True have "p \<in> set (joined_permissions (db w3) (clients_permissions (db w3)) clientId)"
      by (simp add: joined_permissions_def perms joins3)
    ultimately have "preload_Permission (db w3) p \<in> set (Client_Permissions cl)"
      by simp
    moreover from cl have "\<forall>q\<in>set (Client_Permissions cl).
        \<exists>r\<in>set (rows (permissions (db w4))). Id_pk r = Id_pk q"
      by (auto simp add: d4 preload_Client_def joined_permissions_def preload_Permission_def)
    note DeleteClient_permissions_removes [OF e5 this]
    ultimately have "(clientId, Id_pk (preload_Permission (db w3) p)) \<notin> set (clients_permissions (db w5))"
      unfolding w5_def by blast
    then show ?thesis
      by (simp add: joins' preload_Permission_def)
  qed
  from codes consents uris clients detached show ?thesis
    by simp
qed


lemmas DeleteClient_eval =
  DeleteClient_def DeleteClientPermission_def GetClientById_def GetPermissionById_def
  Association_Permissions_Delete_def gorm_Delete_def gorm_First_def first_result_def
  lookup_return_def preload_Client_def preload_Permission_def joined_permissions_def
  find_by_id_def clients_world_def example_client_def example_code_def empty_database_def
  empty_table_def

lemma DeleteClient_example: "fst (DeleteClient 1 clients_world) = Returns None"
  by (simp add: DeleteClient_eval)


lemma gorm_Delete_no_fault:
  "faults w = [] \<Longrightarrow>
     gorm_Delete upd cond w = (None, \<lparr>db = upd (rows_update (filter (\<lambda>r. \<not> cond r))) (db w), faults = []\<rparr>)"
  by (simp add: gorm_Delete_def)

lemma order_id_asc_first_filter_Some:
  assumes "\<exists>r\<in>set rs. cond r"
  obtains m where "order_id_asc_first (filter cond rs) = Some m" "m \<in> set rs" "cond m"
proof -
  from assms have "filter cond rs \<noteq> []" by (simp add: filter_empty_conv)
  then have "order_id_asc_first (filter cond rs) \<noteq> None"
    by (simp only: order_id_asc_first_None not_False_eq_True)
  then obtain m where m: "order_id_asc_first (filter cond rs) = Some m"
    by blast
  with order_id_asc_first_Some have "m \<in> set (filter cond rs)" by blast
  with m that show ?thesis by simp
qed

lemma gorm_First_found:
  assumes "faults w = []" and "\<exists>r\<in>set (rows (tbl (db w))). cond r"
  obtains m where "m \<in> set (rows (tbl (db w)))" "cond m"
    "(case gorm_First tbl pre cond w of (result, w') \<Rightarrow> (lookup_return msg result, w')) =
       ((Some (pre (db w) m), None), w)"
proof -
  from assms(2) obtain m where m: "order_id_asc_first (filter cond (rows (tbl (db w)))) = Some m"
    "m \<in> set (rows (tbl (db w)))" "cond m"
    by (rule order_id_asc_first_filter_Some)
  have "w\<lparr>faults := []\<rparr> = w" using assms(1) by simp
  with m assms(1) have "(case gorm_First tbl pre cond w of (result, w') \<Rightarrow> (lookup_return msg result, w')) =
       ((Some (pre (db w) m), None), w)"
    by (simp add: gorm_First_def lookup_return_first_result)
  with m that show ?thesis by blast
qed

lemma DeleteClientPermission_returns:
  assumes "faults w = []"
    and "\<exists>r\<in>set (rows (clients (db w))). Id_pk r = c"
    and "\<exists>r\<in>set (rows (permissions (db w))). Id_pk r = p"
  shows "fst (DeleteClientPermission c p w) = None \<and>
         faults (snd (DeleteClientPermission c p w)) = []"
proof -
  from assms(1,2) obtain cl where
    g1: "GetClientById c w = ((Some (preload_Client (db w) cl), None), w)"
    unfolding GetClientById_def by (rule gorm_First_found)
  from assms(1,3) obtain pm where
    g2: "GetPermissionById p w = ((Some (preload_Permission (db w) pm), None), w)"
    unfolding GetPermissionById_def by (rule gorm_First_found)
  show ?thesis
    using assms(1)
    by (simp add: DeleteClientPermission_def g1 g2 Association_Permissions_Delete_def)
qed

lemma DeleteClient_permissions_returns:
  assumes "faults w = []"
    and "\<exists>r\<in>set (rows (clients (db w))). Id_pk r = c"
    and "\<forall>p\<in>set ps. \<exists>r\<in>set (rows (permissions (db w))). Id_pk r = Id_pk p"
  shows "fst (DeleteClient_permissions c ps w) = None \<and>
         faults (snd (DeleteClient_permissions c ps w)) = []"
  using assms
proof (induction ps arbitrary: w)
  case Nil
  then show ?case by simp
next
  case (Cons p ps)
  let ?w1 = "snd (DeleteClientPermission c (Id_pk p) w)"
  from Cons.prems have 1: "fst (DeleteClientPermission c (Id_pk p) w) = None"
    and f: "faults ?w1 = []"
    using DeleteClientPermission_returns [of w c "Id_pk p"] by simp_all
  note t = joins_shrink_tables [OF joins_shrink_DeleteClientPermission [of w c "Id_pk p"]]
  from Cons.prems have "fst (DeleteClient_permissions c ps ?w1) = None \<and>
         faults (snd (DeleteClient_permissions c ps ?w1)) = []"
    by (intro Cons.IH f) (simp_all add: t)
  with 1 show ?case
    by (simp add: case_prod_beta)
qed

lemma DeleteClient_returns:
  assumes "faults w = []" and "\<exists>r\<in>set (rows (clients (db w))). Id_pk r = clientId"
  shows "fst (DeleteClient clientId w) = Returns None"
proof -
  let ?d3 = "codes_update (rows_update (filter (\<lambda>r. Code_ClientId r \<noteq> clientId)))
       (redirect_uris_update (rows_update (filter (\<lambda>r. RedirectURI_ClientId r \<noteq> clientId)))
         (user_consents_update (rows_update (filter (\<lambda>r. UserConsent_ClientId r \<noteq> clientId))) (db w)))"
  let ?w3 = "\<lparr>db = ?d3, faults = []\<rparr>"
  have c3: "\<exists>r\<in>set (rows (clients (db ?w3))). Id_pk r = clientId"
    using assms(2) by simp
  have f3: "faults ?w3 = []" by simp
  from f3 c3 obtain cl where
    cl: "cl \<in> set (rows (clients (db ?w3)))" and
    g: "GetClientById clientId ?w3 = ((Some (preload_Client (db ?w3) cl), None), ?w3)"
    unfolding GetClientById_def by (rule gorm_First_found)
  have ps: "\<forall>p\<in>set (Client_Permissions (preload_Client (db ?w3) cl)).
      \<exists>r\<in>set (rows (permissions (db ?w3))). Id_pk r = Id_pk p"
    by (auto simp add: preload_Client_def joined_permissions_def preload_Permission_def)
  from DeleteClient_permissions_returns [OF f3 c3 ps]
  have l: "fst (DeleteClient_permissions clientId (Client_Permissions (preload_Client (db ?w3) cl)) ?w3) = None"
    and lf: "faults (snd (DeleteClient_permissions clientId (Client_Permissions (preload_Client (db ?w3) cl)) ?w3)) = []"
    by simp_all
  show ?thesis
    using assms(1) l lf
    by (simp add: DeleteClient_def gorm_Delete_no_fault g case_prod_beta)
qed

text \<open>
  C8. \<^verbatim>\<open>DeleteClient\<close> of a client that has a row returns \<^verbatim>\<open>nil\<close> when the driver does not
  fail. Whenever it returns \<^verbatim>\<open>nil\<close>, the tables of codes, user consents and redirect URIs
  hold exactly their former rows of other clients, so no row that references the client
  remains; the row of the client is gone, and no join row links the client to a permission
  of the permissions table.
\<close>

theorem DeleteClient_cascades:
  "(faults w = [] \<and> (\<exists>r\<in>set (rows (clients (db w))). Id_pk r = clientId) \<longrightarrow>
      fst (DeleteClient clientId w) = Returns None) \<and>
   (DeleteClient clientId w = (Returns None, w') \<longrightarrow>
      rows (codes (db w')) = filter (\<lambda>x. Code_ClientId x \<noteq> clientId) (rows (codes (db w))) \<and>
      rows (user_consents (db w')) =
        filter (\<lambda>x. UserConsent_ClientId x \<noteq> clientId) (rows (user_consents (db w))) \<and>
      rows (redirect_uris (db w')) =
        filter (\<lambda>x. RedirectURI_ClientId x \<noteq> clientId) (rows (redirect_uris (db w))) \<and>
      rows (clients (db w')) = filter (\<lambda>x. Id_pk x \<noteq> clientId) (rows (clients (db w))) \<and>
      (\<forall>x\<in>set (rows (codes (db w'))). Code_ClientId x \<noteq> clientId) \<and>
      (\<forall>x\<in>set (rows (user_consents (db w'))). UserConsent_ClientId x \<noteq> clientId) \<and>
      (\<forall>x\<in>set (rows (redirect_uris (db w'))). RedirectURI_ClientId x \<noteq> clientId) \<and>
      (\<forall>p\<in>set (rows (permissions (db w))). (clientId, Id_pk p) \<notin> set (clients_permissions (db w'))))"
proof (rule conjI; rule impI)
  assume "faults w = [] \<and> (\<exists>r\<in>set (rows (clients (db w))). Id_pk r = clientId)"
  then show "fst (DeleteClient clientId w) = Returns None"
    using DeleteClient_returns by blast
next
  assume "DeleteClient clientId w = (Returns None, w')"
  then show
    "rows (codes (db w')) = filter (\<lambda>x. Code_ClientId x \<noteq> clientId) (rows (codes (db w))) \<and>
      rows (user_consents (db w')) =
        filter (\<lambda>x. UserConsent_ClientId x \<noteq> clientId) (rows (user_consents (db w))) \<and>
      rows (redirect_uris (db w')) =
        filter (\<lambda>x. RedirectURI_ClientId x \<noteq> clientId) (rows (redirect_uris (db w))) \<and>
      rows (clients (db w')) = filter (\<lambda>x. Id_pk x \<noteq> clientId) (rows (clients (db w))) \<and>
      (\<forall>x\<in>set (rows (codes (db w'))). Code_ClientId x \<noteq> clientId) \<and>
      (\<forall>x\<in>set (rows (user_consents (db w'))). UserConsent_ClientId x \<noteq> clientId) \<and>
      (\<forall>x\<in>set (rows (redirect_uris (db w'))). RedirectURI_ClientId x \<noteq> clientId) \<and>
      (\<forall>p\<in>set (rows (permissions (db w))). (clientId, Id_pk p) \<notin> set (clients_permissions (db w')))"
    by (rule DeleteClient_effect)
qed

theorem DeleteClient_cascades_witness:
  "DeleteClient 1 clients_world = (Returns None, snd (DeleteClient 1 clients_world)) \<and>
   map Code_ClientId (rows (codes (db clients_world))) = [1, 2] \<and>
   map Code_ClientId (rows (codes (db (snd (DeleteClient 1 clients_world))))) = [2] \<and>
   map UserConsent_ClientId (rows (user_consents (db (snd (DeleteClient 1 clients_world))))) = [2] \<and>
   map RedirectURI_ClientId (rows (redirect_uris (db (snd (DeleteClient 1 clients_world))))) = [2] \<and>
   map Id_pk (rows (clients (db (snd (DeleteClient 1 clients_world))))) = [2] \<and>
   (1, 1) \<notin> set (clients_permissions (db (snd (DeleteClient 1 clients_world))))"
proof -
  have h: "DeleteClient 1 clients_world = (Returns None, snd (DeleteClient 1 clients_world))"
    using DeleteClient_example by (simp add: prod_eq_iff)
  note t = DeleteClient_cascades [where w = clients_world and clientId = 1
      and w' = "snd (DeleteClient 1 clients_world)", THEN conjunct2, rule_format, OF h]
  have p: "rows (permissions (db clients_world)) =
      [\<lparr>Id_pk = 1, PermissionIdentifier = ''account'', Permission_Description = [],
        Permission_ResourceId = 1, Permission_Resource = None\<rparr>]"
    by (simp add: clients_world_def empty_database_def)
  from t have 1: "rows (codes (db (snd (DeleteClient 1 clients_world)))) =
      filter (\<lambda>x. Code_ClientId x \<noteq> 1) (rows (codes (db clients_world)))"
    by (rule conjunct1)
  from t have 2: "rows (user_consents (db (snd (DeleteClient 1 clients_world)))) =
      filter (\<lambda>x. UserConsent_ClientId x \<noteq> 1) (rows (user_consents (db clients_world)))"
    by blast
  from t have 3: "rows (redirect_uris (db (snd (DeleteClient 1 clients_world)))) =
      filter (\<lambda>x. RedirectURI_ClientId x \<noteq> 1) (rows (redirect_uris (db clients_world)))"
    by blast
  from t have 4: "rows (clients (db (snd (DeleteClient 1 clients_world)))) =
      filter (\<lambda>x. Id_pk x \<noteq> 1) (rows (clients (db clients_world)))"
    by blast
  from t have "\<forall>p\<in>set (rows (permissions (db clients_world))).
      (1, Id_pk p) \<notin> set (clients_permissions (db (snd (DeleteClient 1 clients_world))))"
    by blast
  then have 5: "(1, 1) \<notin> set (clients_permissions (db (snd (DeleteClient 1 clients_world))))"
    by (simp add: p)
  have 0: "map Code_ClientId (rows (codes (db clients_world))) = [1, 2]"
    by (simp add: clients_world_def example_code_def empty_database_def)
  have m1: "map Code_ClientId (rows (codes (db (snd (DeleteClient 1 clients_world))))) = [2]"
    unfolding 1 by (simp add: clients_world_def example_code_def empty_database_def)
  have m2: "map UserConsent_ClientId (rows (user_consents (db (snd (DeleteClient 1 clients_world))))) = [2]"
    unfolding 2 by (simp add: clients_world_def empty_database_def)
  have m3: "map RedirectURI_ClientId (rows (redirect_uris (db (snd (DeleteClient 1 clients_world))))) = [2]"
    unfolding 3 by (simp add: clients_world_def empty_database_def)
  have m4: "map Id_pk (rows (clients (db (snd (DeleteClient 1 clients_world))))) = [2]"
    unfolding 4 by (simp add: clients_world_def example_client_def empty_database_def)
  from h 0 m1 m2 m3 m4 5 show ?thesis by blast
qed



section \<open>Authorization codes at rest\<close>

lemma codes_sub_refl: "codes_sub d d"
  by (simp add: codes_sub_def)

lemma codes_sub_trans: "codes_sub d d1 \<Longrightarrow> codes_sub d1 d2 \<Longrightarrow> codes_sub d d2"
  by (auto simp add: codes_sub_def)

lemma hashed_codes_sub: "hashed_codes L d \<Longrightarrow> codes_sub d d' \<Longrightarrow> hashed_codes L d'"
  unfolding hashed_codes_def codes_sub_def
proof
  fix c
  assume h: "\<forall>c\<in>set (rows (codes d)). \<exists>code. length code = 128 \<and> Code_Code c = fst (HashString L code)"
    and s: "set (map Code_Code (rows (codes d'))) \<subseteq> set (map Code_Code (rows (codes d)))"
    and c: "c \<in> set (rows (codes d'))"
  from c s have "Code_Code c \<in> set (map Code_Code (rows (codes d)))" by auto
  then obtain c0 where "c0 \<in> set (rows (codes d))" "Code_Code c0 = Code_Code c" by auto
  with h show "\<exists>code. length code = 128 \<and> Code_Code c = fst (HashString L code)" by metis
qed

lemma codes_sub_gorm_Delete:
  assumes "\<And>P d. codes_sub d (upd (rows_update (filter P)) d)"
  shows "codes_sub (db w) (db (snd (gorm_Delete upd cond w)))"
  using assms by (simp add: gorm_Delete_def codes_sub_refl split: prod.splits option.splits)

lemma codes_sub_codes_update: "codes_sub d (codes_update (rows_update (filter P)) d)"
  by (auto simp add: codes_sub_def)

lemma codes_sub_DeleteClient: "codes_sub (db w) (db (snd (DeleteClient c w)))"
proof -
  define w1 where "w1 = snd (gorm_Delete user_consents_update (\<lambda>x. UserConsent_ClientId x = c) w)"
  define w2 where "w2 = snd (gorm_Delete redirect_uris_update (\<lambda>x. RedirectURI_ClientId x = c) w1)"
  define w3 where "w3 = snd (gorm_Delete codes_update (\<lambda>x. Code_ClientId x = c) w2)"
  define w4 where "w4 = snd (GetClientById c w3)"
  have 1: "codes_sub (db w) (db w1)"
    unfolding w1_def by (rule codes_sub_gorm_Delete) (simp add: codes_sub_def)
  have 2: "codes_sub (db w1) (db w2)"
    unfolding w2_def by (rule codes_sub_gorm_Delete) (simp add: codes_sub_def)
  have 3: "codes_sub (db w2) (db w3)"
    unfolding w3_def by (rule codes_sub_gorm_Delete) (rule codes_sub_codes_update)
  have 4: "db w4 = db w3"
    unfolding w4_def by (rule db_lookups)
  have 5: "codes_sub (db w4) (db (snd (DeleteClient_permissions c ps w4)))" for ps
    using joins_shrink_tables(1) [OF joins_shrink_DeleteClient_permissions [of w4 c ps]]
    by (simp add: codes_sub_def)
  have 6: "codes_sub (db w5) (db (snd (gorm_Delete clients_update (\<lambda>x. Id_pk x = c) w5)))" for w5
    by (rule codes_sub_gorm_Delete) (simp add: codes_sub_def)
  have k2: "codes_sub (db w) (db w2)" using 1 2 by (rule codes_sub_trans)
  have k3: "codes_sub (db w) (db w3)" using k2 3 by (rule codes_sub_trans)
  have k4: "codes_sub (db w) (db w4)" using k3 4 by simp
  have k5: "codes_sub (db w) (db (snd (DeleteClient_permissions c ps w4)))" for ps
    using k4 5 by (rule codes_sub_trans)
  have k6: "codes_sub (db w)
              (db (snd (gorm_Delete clients_update (\<lambda>x. Id_pk x = c) (snd (DeleteClient_permissions c ps w4)))))" for ps
    using k5 6 by (rule codes_sub_trans)
  show ?thesis
    using 1 k2 k3 k4 k5 k6
    by (simp add: DeleteClient_def case_prod_beta w1_def w2_def w3_def w4_def
        split: option.splits outcome.splits)
qed

lemma codes_sub_purge: "codes_sub (db w) (db (snd (purge_expired_codes now w)))"
  unfolding purge_expired_codes_def by (rule codes_sub_gorm_Delete) (rule codes_sub_codes_update)

lemma codes_sub_mark_used: "codes_sub (db w) (db (snd (mark_code_used i w)))"
  by (auto simp add: mark_code_used_def codes_sub_def split: prod.splits option.splits)

lemma insert_row_Code:
  "insert_row r t = Some (r', t') \<Longrightarrow>
     rows t' = rows t @ [r'] \<and> Code_Code r' = Code_Code r \<and> Used r' = Used r"
  by (auto simp add: insert_row_def Let_def split: if_splits)

lemma CreateCode_rows:
  assumes "Code_Client code = None" "Code_User code = None"
  shows "(snd (fst (CreateCode code w)) \<noteq> None \<and>
            rows (codes (db (snd (CreateCode code w)))) = rows (codes (db w))) \<or>
         (snd (fst (CreateCode code w)) = None \<and>
            (\<exists>r. rows (codes (db (snd (CreateCode code w)))) = rows (codes (db w)) @ [r] \<and>
                 Code_Code r = Code_Code code \<and> Used r = Used code))"
proof (cases "next_fault (faults w)")
  case (Pair f fs)
  show ?thesis
  proof (cases f)
    case (Some e)
    with Pair show ?thesis
      by (simp add: CreateCode_def gorm_Create_def)
  next
    case None
    show ?thesis
    proof (cases "insert_row (code\<lparr>Code_Client := None, Code_User := None\<rparr>) (codes (db w))")
      case None': None
      with Pair None assms show ?thesis
        by (simp add: CreateCode_def gorm_Create_def insert_Code_def)
    next
      case (Some a)
      obtain r t where a: "a = (r, t)" by fastforce
      from Some a insert_row_Code [of "code\<lparr>Code_Client := None, Code_User := None\<rparr>" "codes (db w)" r t]
      have "rows t = rows (codes (db w)) @ [r]" "Code_Code r = Code_Code code" "Used r = Used code"
        by simp_all
      with Pair None Some a assms show ?thesis
        by (simp add: CreateCode_def gorm_Create_def insert_Code_def)
    qed
  qed
qed

lemma issue_code_rows:
  "(fst (fst (issue_code L rnd now ctx w)) = None \<and>
      rows (codes (db (snd (issue_code L rnd now ctx w)))) = rows (codes (db w))) \<or>
   (\<exists>rd r. fst (issue_code L rnd now ctx w) = (Some rd, None) \<and>
      params rd = [(''code'', stake 128 rnd), (''state'', req_state ctx)] \<and>
      location rd = req_redirect_uri ctx \<and> mode rd = req_response_mode ctx \<and>
      rows (codes (db (snd (issue_code L rnd now ctx w)))) = rows (codes (db w)) @ [r] \<and>
      Code_Code r = fst (HashString L (stake 128 rnd)) \<and> \<not> Used r)"
proof (cases "snd (HashString L (stake 128 rnd)) = None")
  case False
  then show ?thesis
    by (simp add: issue_code_def GenerateSecureRandomString_def Let_def case_prod_beta)
next
  case True
  let ?code = "\<lparr>Id_pk = 0,
                     Code_Code = fst (HashString L (stake 128 rnd)),
                     Code_ClientId = ctx_ClientId ctx,
                     Code_UserId = ctx_UserId ctx,
                     Code_Scope = ctx_granted_scope ctx,
                     Code_RedirectURI = req_redirect_uri ctx,
                     CodeChallenge = req_code_challenge ctx,
                     CodeChallengeMethod = req_code_challenge_method ctx,
                     Code_Nonce = req_nonce ctx,
                     Code_State = req_state ctx,
                     Code_AcrLevel = ctx_AcrLevel ctx,
                     Code_AuthMethods = ctx_AuthMethods ctx,
                     IssuedAt = now,
                     ExpiresAt = now + 60,
                     Used = False,
                     Code_Client = None,
                     Code_User = None\<rparr>"
  have i: "issue_code L rnd now ctx w =
      (if snd (fst (CreateCode ?code w)) \<noteq> None
       then ((None, snd (fst (CreateCode ?code w))), snd (CreateCode ?code w))
       else ((Some \<lparr>location = req_redirect_uri ctx, mode = req_response_mode ctx,
                     params = [(''code'', stake 128 rnd), (''state'', req_state ctx)]\<rparr>, None),
             snd (CreateCode ?code w)))"
    using True
    by (simp add: issue_code_def GenerateSecureRandomString_def Let_def case_prod_beta)
  from CreateCode_rows [of ?code w] show ?thesis
    unfolding i by auto
qed

lemma hashed_codes_issue_code:
  assumes "hashed_codes L (db w)"
  shows "hashed_codes L (db (snd (issue_code L rnd now ctx w)))"
proof -
  have l: "\<exists>code. length code = 128 \<and>
      fst (HashString L (stake 128 rnd)) = fst (HashString L code)"
    by (rule exI [of _ "stake 128 rnd"]) simp
  from issue_code_rows [of L rnd now ctx w] assms l show ?thesis
    unfolding hashed_codes_def by (elim disjE exE conjE) auto
qed

lemma code_flow_step_hashed:
  assumes "code_flow_step L w w'" and "hashed_codes L (db w)"
  shows "hashed_codes L (db w')"
  using assms
proof (cases rule: code_flow_step.cases)
  case (flow_issue rnd now ctx fs)
  with assms(2) hashed_codes_issue_code [of L "w\<lparr>faults := fs\<rparr>" rnd now ctx] show ?thesis by simp
next
  case (flow_mark_used i fs)
  with assms(2) codes_sub_mark_used [of "w\<lparr>faults := fs\<rparr>" i] show ?thesis
    by (auto intro: hashed_codes_sub)
next
  case (flow_purge now fs)
  with assms(2) codes_sub_purge [of "w\<lparr>faults := fs\<rparr>" now] show ?thesis
    by (auto intro: hashed_codes_sub)
next
  case (flow_DeleteClient c fs)
  with assms(2) codes_sub_DeleteClient [of "w\<lparr>faults := fs\<rparr>" c] show ?thesis
    by (auto intro: hashed_codes_sub)
qed

lemma code_flow_steps_hashed:
  assumes "(code_flow_step L)\<^sup>*\<^sup>* w w'" and "hashed_codes L (db w)"
  shows "hashed_codes L (db w')"
  using assms
  by (induction rule: rtranclp_induct) (auto intro: code_flow_step_hashed)

lemma lookup_presented_code_Some:
  assumes "fst (lookup_presented_code L presented w) = (Some r, None)"
  shows "Code_Code r = fst (HashString L presented) \<and> \<not> Used r \<and>
         r \<in> preload_Code (db w) ` set (rows (codes (db w)))"
proof -
  from assms have g: "fst (GetCode (fst (HashString L presented)) False w) = (Some r, None)"
    by (simp add: lookup_presented_code_def case_prod_beta split: if_splits)
  then have "\<exists>x\<in>set (rows (codes (db w))).
      (Code_Code x = fst (HashString L presented) \<and> Used x = False) \<and> r = preload_Code (db w) x"
    unfolding GetCode_def by (rule lookup_Some)
  then show ?thesis
    by (auto simp add: preload_Code_def)
qed

lemma issued_code_is_found:
  assumes "fst (issue_code L rnd now ctx w) = (Some rd, None)"
  shows "\<exists>code r. map_of (params rd) ''code'' = Some code \<and>
           fst (lookup_presented_code L code ((snd (issue_code L rnd now ctx w))\<lparr>faults := []\<rparr>)) =
             (Some r, None)"
proof -
  let ?w' = "(snd (issue_code L rnd now ctx w))\<lparr>faults := []\<rparr>"
  let ?h = "fst (HashString L (stake 128 rnd))"
  from issue_code_rows [of L rnd now ctx w] assms obtain r0 where
    p: "params rd = [(''code'', stake 128 rnd), (''state'', req_state ctx)]" and
    r: "rows (codes (db (snd (issue_code L rnd now ctx w)))) = rows (codes (db w)) @ [r0]" and
    c: "Code_Code r0 = ?h" "\<not> Used r0"
    by auto
  from assms have e: "snd (HashString L (stake 128 rnd)) = None"
    by (simp add: issue_code_def GenerateSecureRandomString_def Let_def case_prod_beta
        split: if_splits)
  from r c have "r0 \<in> set (filter (\<lambda>c. Code_Code c = ?h \<and> Used c = False) (rows (codes (db ?w'))))"
    by simp
  then have "order_id_asc_first (filter (\<lambda>c. Code_Code c = ?h \<and> Used c = False) (rows (codes (db ?w')))) \<noteq> None"
    by (auto simp add: order_id_asc_first_None simp del: set_filter)
  then obtain m where
    "order_id_asc_first (filter (\<lambda>c. Code_Code c = ?h \<and> Used c = False) (rows (codes (db ?w')))) = Some m"
    by blast
  then have "fst (lookup_presented_code L (stake 128 rnd) ?w') = (Some (preload_Code (db ?w') m), None)"
    using e
    by (simp add: lookup_presented_code_def case_prod_beta GetCode_def gorm_First_def
        lookup_return_first_result)
  with p show ?thesis by simp
qed

text \<open>
  C6. Whenever the code issuer sends its redirect, the redirect goes to the redirect URI
  of the request in the response mode of the request, its \<^verbatim>\<open>code\<close> parameter is 128
  characters long, and its \<^verbatim>\<open>state\<close> parameter is the \<^verbatim>\<open>state\<close> of the authorize request.
\<close>

theorem issue_code_redirect:
  assumes "fst (issue_code L rnd now ctx w) = (Some rd, None)"
  shows "\<exists>code. map_of (params rd) ''code'' = Some code \<and> length code = 128 \<and>
           map_of (params rd) ''state'' = Some (req_state ctx) \<and>
           location rd = req_redirect_uri ctx \<and> mode rd = req_response_mode ctx"
proof -
  from issue_code_rows [of L rnd now ctx w] assms have
    "params rd = [(''code'', stake 128 rnd), (''state'', req_state ctx)]"
    "location rd = req_redirect_uri ctx" "mode rd = req_response_mode ctx"
    by auto
  then show ?thesis by simp
qed

text \<open>
  C2. In every state that issuing codes, marking codes used, purging expired codes and
  deleting clients reach from a database without codes, each stored code is
  \<^verbatim>\<open>lib.HashString\<close> of a 128-character code, and (a SHA-256 digest being shorter than 128
  characters) is itself no 128-character code; the lookup of a presented code returns only a
  row whose stored code is the hash of the presented code and whose \<^verbatim>\<open>used\<close> is false; and
  the code that the issuer sends is found by that lookup.
\<close>

theorem codes_at_rest_are_hashes:
  assumes "(code_flow_step L)\<^sup>*\<^sup>* w0 w" and "rows (codes (db w0)) = []"
    and "\<forall>s. length (fst (HashString L s)) < 128"
  shows "(\<forall>c\<in>set (rows (codes (db w))).
            (\<exists>code. length code = 128 \<and> Code_Code c = fst (HashString L code)) \<and>
            length (Code_Code c) \<noteq> 128) \<and>
         (\<forall>presented r. fst (lookup_presented_code L presented w) = (Some r, None) \<longrightarrow>
            Code_Code r = fst (HashString L presented) \<and> \<not> Used r) \<and>
         (\<forall>rnd now ctx rd. fst (issue_code L rnd now ctx w) = (Some rd, None) \<longrightarrow>
            (\<exists>code r. map_of (params rd) ''code'' = Some code \<and>
               fst (lookup_presented_code L code ((snd (issue_code L rnd now ctx w))\<lparr>faults := []\<rparr>)) =
                 (Some r, None)))"
proof (intro conjI ballI allI impI)
  from assms(2) have "hashed_codes L (db w0)" by (simp add: hashed_codes_def)
  with assms(1) have h: "hashed_codes L (db w)" by (rule code_flow_steps_hashed)
  fix c
  assume c: "c \<in> set (rows (codes (db w)))"
  with h show "\<exists>code. length code = 128 \<and> Code_Code c = fst (HashString L code)"
    by (simp add: hashed_codes_def)
  then obtain code where "Code_Code c = fst (HashString L code)" by blast
  with assms(3) have "length (Code_Code c) < 128" by simp
  then show "length (Code_Code c) \<noteq> 128" by simp
next
  fix presented r
  assume "fst (lookup_presented_code L presented w) = (Some r, None)"
  then show "Code_Code r = fst (HashString L presented)" and "\<not> Used r"
    using lookup_presented_code_Some by blast+
next
  fix rnd now ctx rd
  assume "fst (issue_code L rnd now ctx w) = (Some rd, None)"
  then show "\<exists>code r. map_of (params rd) ''code'' = Some code \<and>
      fst (lookup_presented_code L code ((snd (issue_code L rnd now ctx w))\<lparr>faults := []\<rparr>)) =
        (Some r, None)"
    by (rule issued_code_is_found)
qed


lemma issue_example:
  "fst (issue_code example_lib example_random 0 example_context new_world) =
     (Some \<lparr>location = ''https://c/cb'', mode = query_mode,
            params = [(''code'', GenerateSecureRandomString 128 example_random), (''state'', ''a1b2c3'')]\<rparr>,
      None)"
  by (simp add: issue_code_def Let_def example_lib_def example_context_def new_world_def
      empty_database_def empty_table_def CreateCode_def gorm_Create_def insert_Code_def
      insert_row_def)

theorem issue_code_redirect_witness:
  "fst (issue_code example_lib example_random 0 example_context new_world) =
     (Some \<lparr>location = ''https://c/cb'', mode = query_mode,
            params = [(''code'', GenerateSecureRandomString 128 example_random), (''state'', ''a1b2c3'')]\<rparr>,
      None) \<and>
   length (GenerateSecureRandomString 128 example_random) = 128 \<and>
   req_state example_context = ''a1b2c3''"
proof -
  from issue_code_redirect [OF issue_example]
  have "length (GenerateSecureRandomString 128 example_random) = 128"
    by simp
  moreover have "req_state example_context = ''a1b2c3''"
    by (simp add: example_context_def)
  ultimately show ?thesis using issue_example by blast
qed

lemma example_flow:
  "(code_flow_step example_lib)\<^sup>*\<^sup>* new_world
     (snd (issue_code example_lib example_random 0 example_context new_world))"
  using flow_issue [of example_lib new_world example_random 0 example_context "faults new_world"]
  by auto

lemma example_hash_length: "\<forall>s. length (fst (HashString example_lib s)) < 128"
  by (auto simp add: example_lib_def min_def)

theorem codes_at_rest_are_hashes_witness:
  "(code_flow_step example_lib)\<^sup>*\<^sup>* new_world
     (snd (issue_code example_lib example_random 0 example_context new_world)) \<and>
   rows (codes (db new_world)) = [] \<and>
   (\<forall>s. length (fst (HashString example_lib s)) < 128) \<and>
   map Code_Code (rows (codes (db (snd (issue_code example_lib example_random 0 example_context new_world))))) =
     [fst (HashString example_lib (GenerateSecureRandomString 128 example_random))] \<and>
   list_all (\<lambda>c. length (Code_Code c) \<noteq> 128)
     (rows (codes (db (snd (issue_code example_lib example_random 0 example_context new_world)))))"
proof -
  have e: "rows (codes (db new_world)) = []"
    by (simp add: new_world_def empty_database_def empty_table_def)
  from codes_at_rest_are_hashes [OF example_flow e example_hash_length]
  have "\<forall>c\<in>set (rows (codes (db (snd (issue_code example_lib example_random 0 example_context new_world))))).
      length (Code_Code c) \<noteq> 128"
    by blast
  then have l: "list_all (\<lambda>c. length (Code_Code c) \<noteq> 128)
     (rows (codes (db (snd (issue_code example_lib example_random 0 example_context new_world)))))"
    by (simp add: list_all_iff)
  from issue_code_rows [of example_lib example_random 0 example_context new_world] issue_example
  have "map Code_Code (rows (codes (db (snd (issue_code example_lib example_random 0 example_context new_world))))) =
     [fst (HashString example_lib (GenerateSecureRandomString 128 example_random))]"
    by (auto simp add: e GenerateSecureRandomString_def)
  with example_flow e example_hash_length l show ?thesis by blast
qed

end
